theory Spec2Isabelle
  imports Complex_Main
begin

section \<open>Python numerics\<close>

text \<open>
  The editor computes with Python floats. They are modelled as mathematical reals:
  \<open>+\<close>, \<open>-\<close>, \<open>*\<close>, \<open>/\<close>, \<open>math.cos\<close>, \<open>math.sin\<close>, \<open>math.atan2\<close>, \<open>math.degrees\<close> and
  \<open>math.hypot\<close> are the exact operations, so results that depend on their IEEE rounding
  are outside this development. The one exception is \<open>%\<close>: whether \<open>v % 360\<close> stays below
  \<open>360\<close> depends on the rounding of its last addition, which is therefore modelled.
  Font sizes are Python ints.
\<close>

definition radians :: "real \<Rightarrow> real" where
  "radians d = d * pi / 180"

definition degrees :: "real \<Rightarrow> real" where
  "degrees r = r * 180 / pi"

definition hypot :: "real \<Rightarrow> real \<Rightarrow> real" where
  "hypot a b = sqrt (a\<^sup>2 + b\<^sup>2)"

definition atan2 :: "real \<Rightarrow> real \<Rightarrow> real" where
  \<comment> \<open>\<open>math.atan2(y, x)\<close>: the angle of the point \<open>(x, y)\<close> in \<open>(-pi, pi]\<close>, \<open>0\<close> at the origin.\<close>
  "atan2 b a =
     (if 0 < a then arctan (b / a)
      else if a < 0 then (if 0 \<le> b then arctan (b / a) + pi else arctan (b / a) - pi)
      else if 0 < b then pi / 2
      else if b < 0 then - (pi / 2)
      else 0)"

definition py_int :: "real \<Rightarrow> int" where
  \<comment> \<open>\<open>int(v)\<close> on a float: truncation toward zero.\<close>
  "py_int v = (if 0 \<le> v then \<lfloor>v\<rfloor> else \<lceil>v\<rceil>)"

definition round_half_even :: "real \<Rightarrow> int" where
  \<comment> \<open>The integer nearest to \<open>v\<close>; of two equally near ones, the even one.\<close>
  "round_half_even v =
     (let f = \<lfloor>v\<rfloor>
      in if v - of_int f < 1 / 2 then f
         else if 1 / 2 < v - of_int f then f + 1
         else if even f then f else f + 1)"

definition float_round :: "real \<Rightarrow> real" where
  \<comment> \<open>The double nearest to \<open>v\<close>, ties to even: \<open>v\<close> is rounded to a multiple of the unit
     in the last place of a 53-bit significand. The exponent range is not bounded (no
     overflow, no subnormal numbers).\<close>
  "float_round v =
     (if v = 0 then 0
      else (let u = 2 powr (of_int (\<lfloor>log 2 \<bar>v\<bar>\<rfloor> - 52))
            in of_int (round_half_even (v / u)) * u))"

definition fmod :: "real \<Rightarrow> real \<Rightarrow> real" where
  \<comment> \<open>C's \<open>fmod(a, n)\<close> for \<open>n \<noteq> 0\<close>: what is left of \<open>a\<close> after the quotient truncated
     toward zero; it has the sign of \<open>a\<close>, and IEEE computes it without rounding.\<close>
  "fmod a n = a - n * of_int (py_int (a / n))"

definition py_mod :: "real \<Rightarrow> real \<Rightarrow> real" where
  \<comment> \<open>\<open>a % n\<close> on floats for \<open>n \<noteq> 0\<close>, as CPython's \<open>float_rem\<close> computes it: \<open>fmod(a, n)\<close>,
     and when that is not zero and its sign is not the sign of \<open>n\<close>, the float sum
     \<open>fmod(a, n) + n\<close>.\<close>
  "py_mod a n =
     (let m = fmod a n
      in if m \<noteq> 0 \<and> ((n < 0) \<noteq> (m < 0)) then float_round (m + n) else m)"

definition py_range2 :: "nat \<Rightarrow> nat list" where
  \<comment> \<open>\<open>range(0, stop, 2)\<close>\<close>
  "py_range2 stop = map (\<lambda>k. 2 * k) [0 ..< (stop + 1) div 2]"

definition pairs_upto :: "real list \<Rightarrow> nat \<Rightarrow> (real \<times> real) list" where
  \<comment> \<open>\<open>[(coords[i], coords[i+1]) for i in range(0, stop, 2)]\<close>\<close>
  "pairs_upto coords stop = map (\<lambda>i. (coords ! i, coords ! (i + 1))) (py_range2 stop)"

fun py_max_by :: "('a \<Rightarrow> real) \<Rightarrow> 'a \<Rightarrow> 'a list \<Rightarrow> 'a" where
  \<comment> \<open>\<open>max(seq, key=f)\<close> with the best element so far: the first maximal element wins.\<close>
  "py_max_by f best [] = best"
| "py_max_by f best (p # ps) = py_max_by f (if f best < f p then p else best) ps"

fun py_min_by :: "('a \<Rightarrow> real) \<Rightarrow> 'a \<Rightarrow> 'a list \<Rightarrow> 'a" where
  "py_min_by f best [] = best"
| "py_min_by f best (p # ps) = py_min_by f (if f p < f best then p else best) ps"

datatype error = AttributeError string string | KeyError string | ZeroDivisionError

section \<open>The rendering surface\<close>

text \<open>
  The Tk canvas is a display list of items, bottom first, each with a fresh identifier
  (Tk numbers items from 1). What \<open>canvas.bbox\<close> reports for an item is the host's
  business (outline widths, font metrics): it is the field \<open>item_bbox\<close>, a parameter of
  the model.
\<close>

datatype canvas_item =
    Polygon "real list"
  | Oval real real real real
  | LineItem real real real real
  | RectangleItem real real real real
  | TextItem real real string int
  | ImageItem int int

type_synonym bbox4 = "real \<times> real \<times> real \<times> real"

record Canvas =
  next_id :: nat
  display :: "(nat \<times> canvas_item) list"
  item_bbox :: "canvas_item \<Rightarrow> bbox4 option"

definition canvas_create :: "canvas_item \<Rightarrow> Canvas \<Rightarrow> nat \<times> Canvas" where
  "canvas_create it c =
     (next_id c, c\<lparr>next_id := next_id c + 1, display := display c @ [(next_id c, it)]\<rparr>)"

definition canvas_delete :: "nat option \<Rightarrow> Canvas \<Rightarrow> Canvas" where
  "canvas_delete i c =
     (case i of None \<Rightarrow> c
      | Some n \<Rightarrow> c\<lparr>display := filter (\<lambda>e. fst e \<noteq> n) (display c)\<rparr>)"

definition canvas_coords :: "nat \<Rightarrow> canvas_item \<Rightarrow> Canvas \<Rightarrow> Canvas" where
  \<comment> \<open>\<open>canvas.coords(item, ...)\<close>: the item keeps its place in the display list.\<close>
  "canvas_coords n it c =
     c\<lparr>display := map (\<lambda>e. if fst e = n then (n, it) else e) (display c)\<rparr>"

definition tag_raise :: "nat \<Rightarrow> Canvas \<Rightarrow> Canvas" where
  "tag_raise n c =
     c\<lparr>display := filter (\<lambda>e. fst e \<noteq> n) (display c) @ filter (\<lambda>e. fst e = n) (display c)\<rparr>"

definition tag_lower :: "nat \<Rightarrow> Canvas \<Rightarrow> Canvas" where
  "tag_lower n c =
     c\<lparr>display := filter (\<lambda>e. fst e = n) (display c) @ filter (\<lambda>e. fst e \<noteq> n) (display c)\<rparr>"

definition canvas_bbox :: "nat option \<Rightarrow> Canvas \<Rightarrow> bbox4 option" where
  "canvas_bbox i c =
     (case i of None \<Rightarrow> None
      | Some n \<Rightarrow> (case map_of (display c) n of None \<Rightarrow> None | Some it \<Rightarrow> item_bbox c it))"

section \<open>Shapes\<close>

text \<open>
  One record per class; the subclasses extend \<open>Shape\<close>. \<open>handles\<close> is the dictionary
  from handle name to canvas item, in insertion order. The attribute \<open>text\<close> of
  \<open>TextShape\<close> is the field \<open>text_content\<close>. \<open>CircleShape.__init__\<close> sets no
  \<open>angle\<close> attribute: the field is \<open>None\<close> until an assignment creates it, and reading
  it while it is \<open>None\<close> is Python's AttributeError.
\<close>

record Shape =
  selected :: bool
  handles :: "(string \<times> nat) list"
  item :: "nat option"

record RectangleShape = Shape +
  base_x :: real
  base_y :: real
  base_width :: real
  base_height :: real
  x :: real
  y :: real
  width :: real
  height :: real
  angle :: real

record CircleShape = Shape +
  base_x :: real
  base_y :: real
  base_radius :: real
  x :: real
  y :: real
  radius :: real
  angle :: "real option"

record HourglassShape = Shape +
  base_x :: real
  base_y :: real
  base_width :: real
  base_height :: real
  x :: real
  y :: real
  width :: real
  height :: real
  angle :: real

record LineShape = Shape +
  base_x1 :: real
  base_y1 :: real
  base_x2 :: real
  base_y2 :: real
  x1 :: real
  y1 :: real
  x2 :: real
  y2 :: real

record TextShape = Shape +
  base_x :: real
  base_y :: real
  base_font_size :: real
  x :: real
  y :: real
  text_content :: string
  font_size :: int
  angle :: real
  bbox :: "bbox4 option"

datatype shape =
    is_RectangleShape: Rectangle RectangleShape
  | is_CircleShape: Circle CircleShape
  | is_HourglassShape: Hourglass HourglassShape
  | is_LineShape: Line LineShape
  | is_TextShape: Text TextShape

definition dict_set :: "(string \<times> 'v) list \<Rightarrow> string \<Rightarrow> 'v \<Rightarrow> (string \<times> 'v) list" where
  \<comment> \<open>\<open>d[k] = v\<close> on an insertion-ordered dictionary\<close>
  "dict_set d k v =
     (if k \<in> fst ` set d then map (\<lambda>e. if fst e = k then (k, v) else e) d else d @ [(k, v)])"

definition delete_handles :: "'a Shape_scheme \<Rightarrow> Canvas \<Rightarrow> 'a Shape_scheme \<times> Canvas" where
  "delete_handles self canvas =
     (self\<lparr>handles := []\<rparr>,
      fold (\<lambda>hid c. canvas_delete (Some hid) c) (map snd (handles self)) canvas)"

subsection \<open>RectangleShape\<close>

definition RectangleShape_init :: "real \<Rightarrow> real \<Rightarrow> real \<Rightarrow> real \<Rightarrow> RectangleShape" where
  "RectangleShape_init px py w h =
     \<lparr>selected = False, handles = [], item = None,
      RectangleShape.base_x = px, RectangleShape.base_y = py,
      RectangleShape.base_width = w, RectangleShape.base_height = h,
      RectangleShape.x = px, RectangleShape.y = py,
      RectangleShape.width = w, RectangleShape.height = h, RectangleShape.angle = 0\<rparr>"

definition get_corners :: "RectangleShape \<Rightarrow> real list" where
  "get_corners self =
     (let w2 = RectangleShape.width self / 2;
          h2 = RectangleShape.height self / 2;
          pts = [(- w2, - h2), (w2, - h2), (w2, h2), (- w2, h2)];
          rad = radians (RectangleShape.angle self);
          cos_a = cos rad;
          sin_a = sin rad
      in concat (map (\<lambda>(dx, dy).
                   [RectangleShape.x self + dx * cos_a - dy * sin_a,
                    RectangleShape.y self + dx * sin_a + dy * cos_a]) pts))"

definition RectangleShape_draw :: "RectangleShape \<Rightarrow> Canvas \<Rightarrow> RectangleShape \<times> Canvas" where
  "RectangleShape_draw self canvas =
     (let corners = get_corners self
      in case item self of
           None \<Rightarrow> (let (i, c) = canvas_create (Polygon corners) canvas
                    in (self\<lparr>item := Some i\<rparr>, c))
         | Some i \<Rightarrow> (self, canvas_coords i (Polygon corners) canvas))"

definition RectangleShape_contains_point :: "RectangleShape \<Rightarrow> real \<Rightarrow> real \<Rightarrow> bool" where
  "RectangleShape_contains_point self px py =
     (let rad = radians (- RectangleShape.angle self);
          cos_a = cos rad;
          sin_a = sin rad;
          dx = px - RectangleShape.x self;
          dy = py - RectangleShape.y self;
          lx = dx * cos_a - dy * sin_a;
          ly = dx * sin_a + dy * cos_a
      in \<bar>lx\<bar> \<le> RectangleShape.width self / 2 \<and> \<bar>ly\<bar> \<le> RectangleShape.height self / 2)"

definition RectangleShape_draw_handles ::
  "RectangleShape \<Rightarrow> Canvas \<Rightarrow> RectangleShape \<times> Canvas" where
  "RectangleShape_draw_handles self0 canvas0 =
     (let (self1, canvas1) = delete_handles self0 canvas0;
          corners = get_corners self1;
          pts = pairs_upto corners (length corners);
          hs = 6;
          (bx, by) = pts ! 2;
          (rsz, canvas2) = canvas_create (RectangleItem (bx - hs) (by - hs) (bx + hs) (by + hs)) canvas1;
          self2 = self1\<lparr>handles := dict_set (handles self1) ''resize'' rsz\<rparr>;
          top_mid = ((fst (pts ! 0) + fst (pts ! 1)) / 2, (snd (pts ! 0) + snd (pts ! 1)) / 2);
          rx = fst top_mid;
          ry = snd top_mid - 20;
          (rot, canvas3) = canvas_create (RectangleItem (rx - hs) (ry - hs) (rx + hs) (ry + hs)) canvas2
      in (self2\<lparr>handles := dict_set (handles self2) ''rotate'' rot\<rparr>, canvas3))"

subsection \<open>CircleShape\<close>

definition CircleShape_init :: "real \<Rightarrow> real \<Rightarrow> real \<Rightarrow> CircleShape" where
  "CircleShape_init px py r =
     \<lparr>selected = False, handles = [], item = None,
      CircleShape.base_x = px, CircleShape.base_y = py, CircleShape.base_radius = r,
      CircleShape.x = px, CircleShape.y = py, CircleShape.radius = r, CircleShape.angle = None\<rparr>"

definition CircleShape_oval :: "CircleShape \<Rightarrow> canvas_item" where
  "CircleShape_oval self =
     Oval (CircleShape.x self - radius self) (CircleShape.y self - radius self)
          (CircleShape.x self + radius self) (CircleShape.y self + radius self)"

definition CircleShape_draw :: "CircleShape \<Rightarrow> Canvas \<Rightarrow> CircleShape \<times> Canvas" where
  "CircleShape_draw self canvas =
     (case item self of
        None \<Rightarrow> (let (i, c) = canvas_create (CircleShape_oval self) canvas
                 in (self\<lparr>item := Some i\<rparr>, c))
      | Some i \<Rightarrow> (self, canvas_coords i (CircleShape_oval self) canvas))"

definition CircleShape_contains_point :: "CircleShape \<Rightarrow> real \<Rightarrow> real \<Rightarrow> bool" where
  "CircleShape_contains_point self px py =
     ((px - CircleShape.x self)\<^sup>2 + (py - CircleShape.y self)\<^sup>2 \<le> (radius self)\<^sup>2)"

definition CircleShape_draw_handles :: "CircleShape \<Rightarrow> Canvas \<Rightarrow> CircleShape \<times> Canvas" where
  "CircleShape_draw_handles self0 canvas0 =
     (let (self1, canvas1) = delete_handles self0 canvas0;
          hs = 6;
          rx = CircleShape.x self1 + radius self1;
          ry = CircleShape.y self1;
          (rsz, canvas2) = canvas_create (RectangleItem (rx - hs) (ry - hs) (rx + hs) (ry + hs)) canvas1;
          self2 = self1\<lparr>handles := dict_set (handles self1) ''resize'' rsz\<rparr>;
          top_y = CircleShape.y self2 - radius self2 - 20;
          (rot, canvas3) = canvas_create
             (RectangleItem (CircleShape.x self2 - hs) (top_y - hs) (CircleShape.x self2 + hs) (top_y + hs))
             canvas2
      in (self2\<lparr>handles := dict_set (handles self2) ''rotate'' rot\<rparr>, canvas3))"

subsection \<open>HourglassShape\<close>

definition HourglassShape_init :: "real \<Rightarrow> real \<Rightarrow> real \<Rightarrow> real \<Rightarrow> HourglassShape" where
  "HourglassShape_init px py w h =
     \<lparr>selected = False, handles = [], item = None,
      HourglassShape.base_x = px, HourglassShape.base_y = py,
      HourglassShape.base_width = w, HourglassShape.base_height = h,
      HourglassShape.x = px, HourglassShape.y = py,
      HourglassShape.width = w, HourglassShape.height = h, HourglassShape.angle = 0\<rparr>"

definition get_coords :: "HourglassShape \<Rightarrow> real list" where
  "get_coords self =
     (let w2 = HourglassShape.width self / 2;
          h2 = HourglassShape.height self / 2;
          local_pts = [(- w2, - h2), (w2, h2), (- w2, h2), (w2, - h2), (- w2, - h2)];
          rad = radians (HourglassShape.angle self);
          cos_a = cos rad;
          sin_a = sin rad
      in concat (map (\<lambda>(lx, ly).
                   [HourglassShape.x self + lx * cos_a - ly * sin_a,
                    HourglassShape.y self + lx * sin_a + ly * cos_a]) local_pts))"

definition point_in_polygon :: "real \<Rightarrow> real \<Rightarrow> real list \<Rightarrow> bool" where
  "point_in_polygon px py coords =
     (let n = length coords div 2
      in fold (\<lambda>i inside.
                 let px1 = coords ! (2 * i); py1 = coords ! (2 * i + 1);
                     px2 = coords ! (2 * ((i + 1) mod n)); py2 = coords ! (2 * ((i + 1) mod n) + 1)
                 in if (py1 > py) \<noteq> (py2 > py)
                    then (let xcross = px1 + (py - py1) * (px2 - px1) / (py2 - py1)
                          in if xcross > px then \<not> inside else inside)
                    else inside)
              [0 ..< n] False)"

definition HourglassShape_draw :: "HourglassShape \<Rightarrow> Canvas \<Rightarrow> HourglassShape \<times> Canvas" where
  "HourglassShape_draw self canvas =
     (let coords = get_coords self
      in case item self of
           None \<Rightarrow> (let (i, c) = canvas_create (Polygon coords) canvas
                    in (self\<lparr>item := Some i\<rparr>, c))
         | Some i \<Rightarrow> (self, canvas_coords i (Polygon coords) canvas))"

definition HourglassShape_contains_point :: "HourglassShape \<Rightarrow> real \<Rightarrow> real \<Rightarrow> bool" where
  "HourglassShape_contains_point self px py = point_in_polygon px py (get_coords self)"

definition HourglassShape_draw_handles ::
  "HourglassShape \<Rightarrow> Canvas \<Rightarrow> HourglassShape \<times> Canvas" where
  "HourglassShape_draw_handles self0 canvas0 =
     (let (self1, canvas1) = delete_handles self0 canvas0;
          coords = get_coords self1;
          hs = 6;
          pts = pairs_upto coords (length coords - 2);
          (rx, ry) = py_max_by fst (hd pts) (tl pts);
          (rsz, canvas2) = canvas_create (RectangleItem (rx - hs) (ry - hs) (rx + hs) (ry + hs)) canvas1;
          self2 = self1\<lparr>handles := dict_set (handles self1) ''resize'' rsz\<rparr>;
          (tx, ty) = py_min_by snd (hd pts) (tl pts);
          (rot, canvas3) = canvas_create
             (RectangleItem (tx - hs) (ty - 20 - hs) (tx + hs) (ty - 20 + hs)) canvas2
      in (self2\<lparr>handles := dict_set (handles self2) ''rotate'' rot\<rparr>, canvas3))"

subsection \<open>LineShape\<close>

definition LineShape_init :: "real \<Rightarrow> real \<Rightarrow> real \<Rightarrow> real \<Rightarrow> LineShape" where
  "LineShape_init px1 py1 px2 py2 =
     \<lparr>selected = False, handles = [], item = None,
      base_x1 = px1, base_y1 = py1, base_x2 = px2, base_y2 = py2,
      x1 = px1, y1 = py1, x2 = px2, y2 = py2\<rparr>"

definition LineShape_draw :: "LineShape \<Rightarrow> Canvas \<Rightarrow> LineShape \<times> Canvas" where
  "LineShape_draw self canvas =
     (case item self of
        None \<Rightarrow> (let (i, c) = canvas_create (LineItem (x1 self) (y1 self) (x2 self) (y2 self)) canvas
                 in (self\<lparr>item := Some i\<rparr>, c))
      | Some i \<Rightarrow> (self, canvas_coords i (LineItem (x1 self) (y1 self) (x2 self) (y2 self)) canvas))"

definition LineShape_contains_point :: "LineShape \<Rightarrow> real \<Rightarrow> real \<Rightarrow> bool" where
  "LineShape_contains_point self px py =
     (let line_len = hypot (x2 self - x1 self) (y2 self - y1 self)
      in if line_len = 0 then \<bar>px - x1 self\<bar> < 5 \<and> \<bar>py - y1 self\<bar> < 5
         else (let u = ((px - x1 self) * (x2 self - x1 self) + (py - y1 self) * (y2 self - y1 self))
                       / line_len\<^sup>2
               in if u < 0 \<or> u > 1 then False
                  else (let cx = x1 self + u * (x2 self - x1 self);
                            cy = y1 self + u * (y2 self - y1 self)
                        in hypot (px - cx) (py - cy) \<le> 5)))"

definition LineShape_draw_handles :: "LineShape \<Rightarrow> Canvas \<Rightarrow> LineShape \<times> Canvas" where
  "LineShape_draw_handles self0 canvas0 =
     (let (self1, canvas1) = delete_handles self0 canvas0;
          hs = 5;
          (h1, canvas2) = canvas_create
             (RectangleItem (x1 self1 - hs) (y1 self1 - hs) (x1 self1 + hs) (y1 self1 + hs)) canvas1;
          (h2, canvas3) = canvas_create
             (RectangleItem (x2 self1 - hs) (y2 self1 - hs) (x2 self1 + hs) (y2 self1 + hs)) canvas2;
          self2 = self1\<lparr>handles := dict_set (handles self1) ''end1'' h1\<rparr>
      in (self2\<lparr>handles := dict_set (handles self2) ''end2'' h2\<rparr>, canvas3))"

subsection \<open>TextShape\<close>

definition TextShape_init :: "real \<Rightarrow> real \<Rightarrow> string \<Rightarrow> int \<Rightarrow> TextShape" where
  "TextShape_init px py t fs =
     \<lparr>selected = False, handles = [], item = None,
      TextShape.base_x = px, TextShape.base_y = py, base_font_size = of_int fs,
      TextShape.x = px, TextShape.y = py, text_content = t, font_size = fs,
      TextShape.angle = 0, bbox = None\<rparr>"

definition TextShape_draw :: "TextShape \<Rightarrow> Canvas \<Rightarrow> TextShape \<times> Canvas" where
  "TextShape_draw self canvas0 =
     (let canvas1 = (case item self of None \<Rightarrow> canvas0 | Some i \<Rightarrow> canvas_delete (Some i) canvas0);
          (i, canvas2) = canvas_create
             (TextItem (TextShape.x self) (TextShape.y self) (text_content self) (font_size self)) canvas1
      in (self\<lparr>item := Some i, bbox := canvas_bbox (Some i) canvas2\<rparr>, canvas2))"

definition TextShape_contains_point :: "TextShape \<Rightarrow> real \<Rightarrow> real \<Rightarrow> bool" where
  "TextShape_contains_point self px py =
     (case bbox self of
        Some (bx1, by1, bx2, by2) \<Rightarrow> (bx1 \<le> px \<and> px \<le> bx2) \<and> (by1 \<le> py \<and> py \<le> by2)
      | None \<Rightarrow> False)"

definition TextShape_draw_handles :: "TextShape \<Rightarrow> Canvas \<Rightarrow> TextShape \<times> Canvas" where
  "TextShape_draw_handles self0 canvas0 =
     (let (self1, canvas1) = delete_handles self0 canvas0
      in case bbox self1 of
           None \<Rightarrow> (self1, canvas1)
         | Some (bx1, by1, bx2, by2) \<Rightarrow>
             (let hs = 6;
                  (box, canvas2) = canvas_create (RectangleItem bx1 by1 bx2 by2) canvas1;
                  self2 = self1\<lparr>handles := dict_set (handles self1) ''bbox'' box\<rparr>;
                  (rsz, canvas3) = canvas_create
                     (RectangleItem (bx2 - hs) (by2 - hs) (bx2 + hs) (by2 + hs)) canvas2;
                  self3 = self2\<lparr>handles := dict_set (handles self2) ''resize'' rsz\<rparr>
              in (self3\<lparr>bbox := canvas_bbox (item self3) canvas3\<rparr>, canvas3)))"

definition edit_text :: "string \<Rightarrow> TextShape \<Rightarrow> TextShape" where
  \<comment> \<open>The modal dialog returns with the text the user typed.\<close>
  "edit_text typed self = self\<lparr>text_content := typed\<rparr>"

subsection \<open>Dynamic dispatch\<close>

fun shape_item :: "shape \<Rightarrow> nat option" where
  "shape_item (Rectangle r) = item r"
| "shape_item (Circle c) = item c"
| "shape_item (Hourglass h) = item h"
| "shape_item (Line l) = item l"
| "shape_item (Text t) = item t"

fun shape_handles :: "shape \<Rightarrow> (string \<times> nat) list" where
  "shape_handles (Rectangle r) = handles r"
| "shape_handles (Circle c) = handles c"
| "shape_handles (Hourglass h) = handles h"
| "shape_handles (Line l) = handles l"
| "shape_handles (Text t) = handles t"

fun shape_selected :: "shape \<Rightarrow> bool" where
  "shape_selected (Rectangle r) = selected r"
| "shape_selected (Circle c) = selected c"
| "shape_selected (Hourglass h) = selected h"
| "shape_selected (Line l) = selected l"
| "shape_selected (Text t) = selected t"

fun set_selected :: "bool \<Rightarrow> shape \<Rightarrow> shape" where
  "set_selected b (Rectangle r) = Rectangle (r\<lparr>selected := b\<rparr>)"
| "set_selected b (Circle c) = Circle (c\<lparr>selected := b\<rparr>)"
| "set_selected b (Hourglass h) = Hourglass (h\<lparr>selected := b\<rparr>)"
| "set_selected b (Line l) = Line (l\<lparr>selected := b\<rparr>)"
| "set_selected b (Text t) = Text (t\<lparr>selected := b\<rparr>)"

fun set_item :: "nat option \<Rightarrow> shape \<Rightarrow> shape" where
  "set_item i (Rectangle r) = Rectangle (r\<lparr>item := i\<rparr>)"
| "set_item i (Circle c) = Circle (c\<lparr>item := i\<rparr>)"
| "set_item i (Hourglass h) = Hourglass (h\<lparr>item := i\<rparr>)"
| "set_item i (Line l) = Line (l\<lparr>item := i\<rparr>)"
| "set_item i (Text t) = Text (t\<lparr>item := i\<rparr>)"

fun draw :: "shape \<Rightarrow> Canvas \<Rightarrow> shape \<times> Canvas" where
  "draw (Rectangle r) c = map_prod Rectangle id (RectangleShape_draw r c)"
| "draw (Circle k) c = map_prod Circle id (CircleShape_draw k c)"
| "draw (Hourglass h) c = map_prod Hourglass id (HourglassShape_draw h c)"
| "draw (Line l) c = map_prod Line id (LineShape_draw l c)"
| "draw (Text t) c = map_prod Text id (TextShape_draw t c)"

fun draw_handles :: "shape \<Rightarrow> Canvas \<Rightarrow> shape \<times> Canvas" where
  "draw_handles (Rectangle r) c = map_prod Rectangle id (RectangleShape_draw_handles r c)"
| "draw_handles (Circle k) c = map_prod Circle id (CircleShape_draw_handles k c)"
| "draw_handles (Hourglass h) c = map_prod Hourglass id (HourglassShape_draw_handles h c)"
| "draw_handles (Line l) c = map_prod Line id (LineShape_draw_handles l c)"
| "draw_handles (Text t) c = map_prod Text id (TextShape_draw_handles t c)"

fun contains_point :: "shape \<Rightarrow> real \<Rightarrow> real \<Rightarrow> bool" where
  "contains_point (Rectangle r) px py = RectangleShape_contains_point r px py"
| "contains_point (Circle k) px py = CircleShape_contains_point k px py"
| "contains_point (Hourglass h) px py = HourglassShape_contains_point h px py"
| "contains_point (Line l) px py = LineShape_contains_point l px py"
| "contains_point (Text t) px py = TextShape_contains_point t px py"

fun shape_delete_handles :: "shape \<Rightarrow> Canvas \<Rightarrow> shape \<times> Canvas" where
  "shape_delete_handles (Rectangle r) c = map_prod Rectangle id (delete_handles r c)"
| "shape_delete_handles (Circle k) c = map_prod Circle id (delete_handles k c)"
| "shape_delete_handles (Hourglass h) c = map_prod Hourglass id (delete_handles h c)"
| "shape_delete_handles (Line l) c = map_prod Line id (delete_handles l c)"
| "shape_delete_handles (Text t) c = map_prod Text id (delete_handles t c)"

definition select :: "shape \<Rightarrow> Canvas \<Rightarrow> shape \<times> Canvas" where
  "select shp c = draw_handles (set_selected True shp) c"

definition deselect :: "shape \<Rightarrow> Canvas \<Rightarrow> shape \<times> Canvas" where
  "deselect shp c = shape_delete_handles (set_selected False shp) c"

section \<open>The editor\<close>

text \<open>
  \<open>drag_data\<close> is a dictionary with a fixed set of keys: a record of options, \<open>None\<close> for
  an absent key. Shapes are objects shared between \<open>shapes\<close>, \<open>selected_shape\<close> and
  \<open>current_shape\<close>: \<open>heap\<close> maps an object reference to the object, and the three
  fields hold references. The toolbar, the status bar and the file dialogs are left out.
\<close>

record DragData =
  x :: "real option"
  y :: "real option"
  handle :: "string option"
  init_x :: "real option"
  init_y :: "real option"
  init_font_size :: "int option"
  init_rotate_angle :: "real option"
  init_shape_angle :: "real option"

definition drag_xy :: "real \<Rightarrow> real \<Rightarrow> DragData" where
  \<comment> \<open>\<open>{"x": cx, "y": cy}\<close>\<close>
  "drag_xy cx cy =
     \<lparr>DragData.x = Some cx, DragData.y = Some cy, handle = None, init_x = None, init_y = None,
      init_font_size = None, init_rotate_angle = None, init_shape_angle = None\<rparr>"

definition drag_empty :: DragData where
  "drag_empty =
     \<lparr>DragData.x = None, DragData.y = None, handle = None, init_x = None, init_y = None,
      init_font_size = None, init_rotate_angle = None, init_shape_angle = None\<rparr>"

record App =
  shapes :: "nat list"
  heap :: "nat \<Rightarrow> shape"
  next_ref :: nat
  selected_shape :: "nat option"
  current_tool :: string
  current_shape :: "nat option"
  mode :: string
  drag_data :: DragData
  zoom_level :: real
  canvas :: Canvas
  original_image :: "(int \<times> int) option"
  image_item :: "nat option"
  canvas_width :: int
  canvas_height :: int
  base_canvas_width :: int
  base_canvas_height :: int

datatype outcome = Ok App | Raised error App

definition zoom_step :: real where "zoom_step = 0.1"
definition min_zoom :: real where "min_zoom = 0.1"
definition max_zoom :: real where "max_zoom = 5.0"

definition App_init :: "(canvas_item \<Rightarrow> bbox4 option) \<Rightarrow> App" where
  \<comment> \<open>The state after \<open>__init__\<close> when no default image is found; the host's \<open>bbox\<close> is given.\<close>
  "App_init host_bbox =
     \<lparr>shapes = [], heap = (\<lambda>_. Line (LineShape_init 0 0 0 0)), next_ref = 0,
      selected_shape = None, current_tool = ''select'', current_shape = None,
      mode = ''idle'', drag_data = drag_empty, zoom_level = 1.0,
      canvas = \<lparr>next_id = 1, display = [], item_bbox = host_bbox\<rparr>,
      original_image = None, image_item = None,
      canvas_width = 800, canvas_height = 600,
      base_canvas_width = 800, base_canvas_height = 600\<rparr>"

definition deselect_all :: "App \<Rightarrow> App" where
  "deselect_all self =
     (case selected_shape self of
        None \<Rightarrow> self\<lparr>selected_shape := None\<rparr>
      | Some r \<Rightarrow>
          (let (shp, c) = deselect (heap self r) (canvas self)
           in self\<lparr>heap := (heap self)(r := shp), canvas := c, selected_shape := None\<rparr>))"

definition select_shape :: "nat \<Rightarrow> App \<Rightarrow> App" where
  "select_shape r self0 =
     (let self1 = deselect_all self0;
          (shp, c) = select (heap self1 r) (canvas self1);
          c' = (case shape_item shp of
                  None \<Rightarrow> c
                | Some i \<Rightarrow> if i = 0 then c
                            else fold tag_raise (map snd (shape_handles shp)) (tag_raise i c))
      in self1\<lparr>selected_shape := Some r, heap := (heap self1)(r := shp), canvas := c'\<rparr>)"

definition set_tool :: "string \<Rightarrow> App \<Rightarrow> App" where
  \<comment> \<open>The common body of the six tool setters.\<close>
  "set_tool name self = (deselect_all (self\<lparr>current_tool := name\<rparr>))\<lparr>mode := ''idle''\<rparr>"

definition set_select_tool :: "App \<Rightarrow> App" where "set_select_tool = set_tool ''select''"
definition set_rectangle_tool :: "App \<Rightarrow> App" where "set_rectangle_tool = set_tool ''rectangle''"
definition set_circle_tool :: "App \<Rightarrow> App" where "set_circle_tool = set_tool ''circle''"
definition set_hourglass_tool :: "App \<Rightarrow> App" where "set_hourglass_tool = set_tool ''hourglass''"
definition set_line_tool :: "App \<Rightarrow> App" where "set_line_tool = set_tool ''line''"
definition set_text_tool :: "App \<Rightarrow> App" where "set_text_tool = set_tool ''text''"

subsection \<open>Zoom\<close>

fun zoom_shape :: "real \<Rightarrow> shape \<Rightarrow> shape" where
  "zoom_shape z (Rectangle r) =
     Rectangle (r\<lparr>RectangleShape.x := RectangleShape.base_x r * z,
                RectangleShape.y := RectangleShape.base_y r * z,
                RectangleShape.width := RectangleShape.base_width r * z,
                RectangleShape.height := RectangleShape.base_height r * z\<rparr>)"
| "zoom_shape z (Circle c) =
     Circle (c\<lparr>CircleShape.x := CircleShape.base_x c * z,
             CircleShape.y := CircleShape.base_y c * z,
             radius := base_radius c * z\<rparr>)"
| "zoom_shape z (Hourglass h) =
     Hourglass (h\<lparr>HourglassShape.x := HourglassShape.base_x h * z,
                HourglassShape.y := HourglassShape.base_y h * z,
                HourglassShape.width := HourglassShape.base_width h * z,
                HourglassShape.height := HourglassShape.base_height h * z\<rparr>)"
| "zoom_shape z (Line l) =
     Line (l\<lparr>x1 := base_x1 l * z, y1 := base_y1 l * z, x2 := base_x2 l * z, y2 := base_y2 l * z\<rparr>)"
| "zoom_shape z (Text t) =
     Text (t\<lparr>TextShape.x := TextShape.base_x t * z,
           TextShape.y := TextShape.base_y t * z,
           font_size := py_int (base_font_size t * z)\<rparr>)"

definition zoom_one :: "nat \<Rightarrow> App \<Rightarrow> App" where
  \<comment> \<open>The body of the loop over \<open>self.shapes\<close> in \<open>apply_zoom\<close>.\<close>
  "zoom_one r self =
     (let shp0 = zoom_shape (zoom_level self) (heap self r);
          (shp1, c1) = (case shape_item shp0 of
                          None \<Rightarrow> (shp0, canvas self)
                        | Some i \<Rightarrow> if i = 0 then (shp0, canvas self)
                                    else (set_item None shp0, canvas_delete (Some i) (canvas self)));
          (shp2, c2) = draw shp1 c1;
          (shp3, c3) = (if shape_selected shp2 then draw_handles shp2 c2 else (shp2, c2))
      in self\<lparr>heap := (heap self)(r := shp3), canvas := c3\<rparr>)"

definition zoom_image :: "App \<Rightarrow> App" where
  "zoom_image self =
     (case original_image self of
        None \<Rightarrow> self
      | Some (w, h) \<Rightarrow>
          (let new_w = py_int (of_int w * zoom_level self);
               new_h = py_int (of_int h * zoom_level self);
               c1 = (case image_item self of
                       None \<Rightarrow> canvas self
                     | Some i \<Rightarrow> if i = 0 then canvas self else canvas_delete (Some i) (canvas self));
               (i, c2) = canvas_create (ImageItem new_w new_h) c1
           in self\<lparr>image_item := Some i, canvas := tag_lower i c2\<rparr>))"

definition apply_zoom :: "App \<Rightarrow> App" where
  "apply_zoom self0 =
     (let self1 = zoom_image self0;
          new_w = max 800 (py_int (of_int (base_canvas_width self1) * zoom_level self1));
          new_h = max 600 (py_int (of_int (base_canvas_height self1) * zoom_level self1));
          self2 = self1\<lparr>canvas_width := new_w, canvas_height := new_h\<rparr>
      in fold zoom_one (shapes self2) self2)"

definition zoom_in :: "App \<Rightarrow> App" where
  "zoom_in self =
     (if zoom_level self < max_zoom
      then apply_zoom (self\<lparr>zoom_level := zoom_level self + zoom_step\<rparr>) else self)"

definition zoom_out :: "App \<Rightarrow> App" where
  "zoom_out self =
     (if zoom_level self > min_zoom
      then apply_zoom (self\<lparr>zoom_level := zoom_level self - zoom_step\<rparr>) else self)"

definition reset_zoom :: "App \<Rightarrow> App" where
  "reset_zoom self = apply_zoom (self\<lparr>zoom_level := 1.0\<rparr>)"

subsection \<open>Pointer-down\<close>

definition in_bbox :: "bbox4 option \<Rightarrow> real \<Rightarrow> real \<Rightarrow> bool" where
  \<comment> \<open>\<open>bb and bb[0] <= cx <= bb[2] and bb[1] <= cy <= bb[3]\<close>\<close>
  "in_bbox bb cx cy =
     (case bb of
        None \<Rightarrow> False
      | Some (b0, b1, b2, b3) \<Rightarrow> (b0 \<le> cx \<and> cx \<le> b2) \<and> (b1 \<le> cy \<and> cy \<le> b3))"

fun click_handles :: "(string \<times> nat) list \<Rightarrow> real \<Rightarrow> real \<Rightarrow> nat \<Rightarrow> App \<Rightarrow> App option" where
  \<comment> \<open>The loop over the handles of the selected shape \<open>r\<close>; \<open>Some\<close> is its \<open>return\<close>.\<close>
  "click_handles [] cx cy r self = None"
| "click_handles ((hname, hid) # rest) cx cy r self =
     (if in_bbox (canvas_bbox (Some hid) (canvas self)) cx cy
      then (if hname \<in> set [''resize'', ''end1'', ''end2'']
            then (let self1 = self\<lparr>mode := ''resizing'',
                                    drag_data := (drag_data self)\<lparr>handle := Some hname\<rparr>\<rparr>
                  in case heap self1 r of
                       Text t \<Rightarrow>
                         (if hname = ''resize''
                          then Some (self1\<lparr>drag_data := (drag_data self1)
                                       \<lparr>init_x := Some cx, init_y := Some cy,
                                        init_font_size := Some (font_size t)\<rparr>\<rparr>)
                          else Some self1)
                     | _ \<Rightarrow> Some self1)
            else if hname = ''rotate'' then Some (self\<lparr>mode := ''rotating''\<rparr>)
            else click_handles rest cx cy r self)
      else click_handles rest cx cy r self)"

fun click_shapes :: "nat list \<Rightarrow> real \<Rightarrow> real \<Rightarrow> App \<Rightarrow> App option" where
  \<comment> \<open>The loop over \<open>reversed(self.shapes)\<close>; the list given is already reversed.\<close>
  "click_shapes [] cx cy self = None"
| "click_shapes (s # rest) cx cy self =
     (if contains_point (heap self s) cx cy
      then Some ((select_shape s self)\<lparr>mode := ''move'', drag_data := drag_xy cx cy\<rparr>)
      else click_shapes rest cx cy self)"

definition new_shape :: "string \<Rightarrow> real \<Rightarrow> real \<Rightarrow> shape option" where
  "new_shape tool cx cy =
     (if tool = ''rectangle'' then Some (Rectangle (RectangleShape_init cx cy 100 60))
      else if tool = ''circle'' then Some (Circle (CircleShape_init cx cy 50))
      else if tool = ''hourglass'' then Some (Hourglass (HourglassShape_init cx cy 60 40))
      else if tool = ''line'' then Some (Line (LineShape_init cx cy (cx + 50) cy))
      else if tool = ''text'' then Some (Text (TextShape_init cx cy [] 20))
      else None)"

definition create_shape :: "real \<Rightarrow> real \<Rightarrow> App \<Rightarrow> App" where
  \<comment> \<open>The body of the branch that creates a shape; the tool is one of the five drawing tools.\<close>
  "create_shape cx cy self =
     (case new_shape (current_tool self) cx cy of
        None \<Rightarrow> self
      | Some shp0 \<Rightarrow>
          (let r = next_ref self;
               (shp1, c1) = draw shp0 (canvas self)
           in self\<lparr>mode := ''create'', current_shape := Some r, next_ref := r + 1,
                   heap := (heap self)(r := shp1), shapes := shapes self @ [r],
                   canvas := c1, drag_data := drag_xy cx cy\<rparr>))"

definition on_canvas_click :: "real \<Rightarrow> real \<Rightarrow> App \<Rightarrow> App" where
  "on_canvas_click cx cy self =
     (case (case selected_shape self of
              None \<Rightarrow> None
            | Some r \<Rightarrow> click_handles (shape_handles (heap self r)) cx cy r self) of
        Some self' \<Rightarrow> self'
      | None \<Rightarrow>
          (case click_shapes (rev (shapes self)) cx cy self of
             Some self' \<Rightarrow> self'
           | None \<Rightarrow>
               if mode self = ''edit'' then (deselect_all self)\<lparr>mode := ''idle''\<rparr>
               else if current_tool self \<in> set [''rectangle'', ''circle'', ''hourglass'', ''line'', ''text'']
                       \<and> mode self = ''idle''
               then create_shape cx cy self
               else if current_tool self = ''select'' then (deselect_all self)\<lparr>mode := ''idle''\<rparr>
               else self))"

subsection \<open>Pointer-drag\<close>

fun translate :: "shape \<Rightarrow> real \<Rightarrow> real \<Rightarrow> shape" where
  \<comment> \<open>\<open>shp.x += dx\<close>, \<open>shp.y += dy\<close> (both endpoints of a line)\<close>
  "translate (Line l) dx dy =
     Line (l\<lparr>x1 := x1 l + dx, y1 := y1 l + dy, x2 := x2 l + dx, y2 := y2 l + dy\<rparr>)"
| "translate (Rectangle r) dx dy =
     Rectangle (r\<lparr>RectangleShape.x := RectangleShape.x r + dx, RectangleShape.y := RectangleShape.y r + dy\<rparr>)"
| "translate (Circle c) dx dy =
     Circle (c\<lparr>CircleShape.x := CircleShape.x c + dx, CircleShape.y := CircleShape.y c + dy\<rparr>)"
| "translate (Hourglass h) dx dy =
     Hourglass (h\<lparr>HourglassShape.x := HourglassShape.x h + dx, HourglassShape.y := HourglassShape.y h + dy\<rparr>)"
| "translate (Text t) dx dy =
     Text (t\<lparr>TextShape.x := TextShape.x t + dx, TextShape.y := TextShape.y t + dy\<rparr>)"

fun base_from_position :: "shape \<Rightarrow> real \<Rightarrow> shape" where
  \<comment> \<open>\<open>shp.base_x = shp.x / self.zoom_level\<close> and its siblings; the zoom level is not zero\<close>
  "base_from_position (Line l) z =
     Line (l\<lparr>base_x1 := x1 l / z, base_y1 := y1 l / z, base_x2 := x2 l / z, base_y2 := y2 l / z\<rparr>)"
| "base_from_position (Rectangle r) z =
     Rectangle (r\<lparr>RectangleShape.base_x := RectangleShape.x r / z,
                RectangleShape.base_y := RectangleShape.y r / z\<rparr>)"
| "base_from_position (Circle c) z =
     Circle (c\<lparr>CircleShape.base_x := CircleShape.x c / z, CircleShape.base_y := CircleShape.y c / z\<rparr>)"
| "base_from_position (Hourglass h) z =
     Hourglass (h\<lparr>HourglassShape.base_x := HourglassShape.x h / z,
                HourglassShape.base_y := HourglassShape.y h / z\<rparr>)"
| "base_from_position (Text t) z =
     Text (t\<lparr>TextShape.base_x := TextShape.x t / z, TextShape.base_y := TextShape.y t / z\<rparr>)"

fun resize_displayed :: "shape \<Rightarrow> string \<Rightarrow> real \<Rightarrow> real \<Rightarrow> DragData \<Rightarrow> shape option" where
  \<comment> \<open>The writes to the displayed attributes in the \<open>resizing\<close> branch; \<open>None\<close> when no
     branch of the chain applies.\<close>
  "resize_displayed (Rectangle r) hname cx cy dd =
     (if hname = ''resize''
      then (let rad = radians (- RectangleShape.angle r);
                dxr = cx - RectangleShape.x r;
                dyr = cy - RectangleShape.y r;
                local_x = dxr * cos rad - dyr * sin rad;
                local_y = dxr * sin rad + dyr * cos rad
            in Some (Rectangle (r\<lparr>RectangleShape.width := max 10 (\<bar>local_x\<bar> * 2),
                                   RectangleShape.height := max 10 (\<bar>local_y\<bar> * 2)\<rparr>)))
      else None)"
| "resize_displayed (Circle c) hname cx cy dd =
     (if hname = ''resize''
      then Some (Circle (c\<lparr>radius := max 10 (hypot (cx - CircleShape.x c) (cy - CircleShape.y c))\<rparr>))
      else None)"
| "resize_displayed (Hourglass h) hname cx cy dd =
     (if hname = ''resize''
      then (let rad = radians (- HourglassShape.angle h);
                dxr = cx - HourglassShape.x h;
                dyr = cy - HourglassShape.y h;
                local_x = dxr * cos rad - dyr * sin rad;
                local_y = dxr * sin rad + dyr * cos rad
            in Some (Hourglass (h\<lparr>HourglassShape.width := max 10 (\<bar>local_x\<bar> * 2),
                                   HourglassShape.height := max 10 (\<bar>local_y\<bar> * 2)\<rparr>)))
      else None)"
| "resize_displayed (Line l) hname cx cy dd =
     (if hname = ''end1'' then Some (Line (l\<lparr>x1 := cx, y1 := cy\<rparr>))
      else Some (Line (l\<lparr>x2 := cx, y2 := cy\<rparr>)))"
| "resize_displayed (Text t) hname cx cy dd =
     (if hname = ''resize''
      then (case (init_x dd, init_y dd, init_font_size dd) of
              (Some ix, Some iy, Some ifs) \<Rightarrow>
                (let init_distance0 = hypot (ix - TextShape.x t) (iy - TextShape.y t);
                     current_distance = hypot (cx - TextShape.x t) (cy - TextShape.y t);
                     init_distance = (if init_distance0 = 0 then 1 else init_distance0);
                     ratio = current_distance / init_distance;
                     new_font_size = max 8 (py_int (of_int ifs * ratio))
                 in Some (Text (t\<lparr>font_size := new_font_size\<rparr>)))
            | _ \<Rightarrow> None)
      else None)"

fun base_from_size :: "shape \<Rightarrow> string \<Rightarrow> real \<Rightarrow> shape" where
  \<comment> \<open>The writes to the base attributes that follow; the zoom level is not zero.\<close>
  "base_from_size (Rectangle r) hname z =
     Rectangle (r\<lparr>RectangleShape.base_width := RectangleShape.width r / z,
                RectangleShape.base_height := RectangleShape.height r / z\<rparr>)"
| "base_from_size (Circle c) hname z = Circle (c\<lparr>base_radius := radius c / z\<rparr>)"
| "base_from_size (Hourglass h) hname z =
     Hourglass (h\<lparr>HourglassShape.base_width := HourglassShape.width h / z,
                HourglassShape.base_height := HourglassShape.height h / z\<rparr>)"
| "base_from_size (Line l) hname z =
     (if hname = ''end1'' then Line (l\<lparr>base_x1 := x1 l / z, base_y1 := y1 l / z\<rparr>)
      else Line (l\<lparr>base_x2 := x2 l / z, base_y2 := y2 l / z\<rparr>))"
| "base_from_size (Text t) hname z = Text (t\<lparr>base_font_size := of_int (font_size t) / z\<rparr>)"

fun attr_x :: "shape \<Rightarrow> error + real" where
  "attr_x (Rectangle r) = Inr (RectangleShape.x r)"
| "attr_x (Circle c) = Inr (CircleShape.x c)"
| "attr_x (Hourglass h) = Inr (HourglassShape.x h)"
| "attr_x (Line l) = Inl (AttributeError ''LineShape'' ''x'')"
| "attr_x (Text t) = Inr (TextShape.x t)"

fun attr_y :: "shape \<Rightarrow> error + real" where
  "attr_y (Rectangle r) = Inr (RectangleShape.y r)"
| "attr_y (Circle c) = Inr (CircleShape.y c)"
| "attr_y (Hourglass h) = Inr (HourglassShape.y h)"
| "attr_y (Line l) = Inl (AttributeError ''LineShape'' ''y'')"
| "attr_y (Text t) = Inr (TextShape.y t)"

fun attr_angle :: "shape \<Rightarrow> error + real" where
  "attr_angle (Rectangle r) = Inr (RectangleShape.angle r)"
| "attr_angle (Circle c) =
     (case CircleShape.angle c of
        None \<Rightarrow> Inl (AttributeError ''CircleShape'' ''angle'')
      | Some a \<Rightarrow> Inr a)"
| "attr_angle (Hourglass h) = Inr (HourglassShape.angle h)"
| "attr_angle (Line l) = Inl (AttributeError ''LineShape'' ''angle'')"
| "attr_angle (Text t) = Inr (TextShape.angle t)"

fun set_angle :: "real \<Rightarrow> shape \<Rightarrow> shape" where
  "set_angle a (Rectangle r) = Rectangle (r\<lparr>RectangleShape.angle := a\<rparr>)"
| "set_angle a (Circle c) = Circle (c\<lparr>CircleShape.angle := Some a\<rparr>)"
| "set_angle a (Hourglass h) = Hourglass (h\<lparr>HourglassShape.angle := a\<rparr>)"
| "set_angle a (Line l) = Line l"
| "set_angle a (Text t) = Text (t\<lparr>TextShape.angle := a\<rparr>)"

definition redraw :: "nat \<Rightarrow> App \<Rightarrow> App" where
  \<comment> \<open>\<open>shp.draw(self.canvas)\<close> then \<open>shp.draw_handles(self.canvas)\<close>\<close>
  "redraw r self =
     (let (shp1, c1) = draw (heap self r) (canvas self);
          (shp2, c2) = draw_handles shp1 c1
      in self\<lparr>heap := (heap self)(r := shp2), canvas := c2\<rparr>)"

definition set_drag_xy :: "real \<Rightarrow> real \<Rightarrow> App \<Rightarrow> App" where
  "set_drag_xy cx cy self =
     self\<lparr>drag_data := (drag_data self)\<lparr>DragData.x := Some cx, DragData.y := Some cy\<rparr>\<rparr>"

definition record_rotation_start :: "real \<Rightarrow> real \<Rightarrow> nat \<Rightarrow> App \<Rightarrow> outcome" where
  \<comment> \<open>\<open>if "init_rotate_angle" not in self.drag_data: ...\<close>\<close>
  "record_rotation_start cx cy r self =
     (case init_rotate_angle (drag_data self) of
        Some _ \<Rightarrow> Ok self
      | None \<Rightarrow>
          (case attr_y (heap self r) of
             Inl e \<Rightarrow> Raised e self
           | Inr sy \<Rightarrow>
               (case attr_x (heap self r) of
                  Inl e \<Rightarrow> Raised e self
                | Inr sx \<Rightarrow>
                    (let self1 = self\<lparr>drag_data := (drag_data self)
                                   \<lparr>init_rotate_angle := Some (degrees (atan2 (cy - sy) (cx - sx)))\<rparr>\<rparr>
                     in case attr_angle (heap self1 r) of
                          Inl e \<Rightarrow> Raised e self1
                        | Inr a \<Rightarrow>
                            Ok (self1\<lparr>drag_data := (drag_data self1)\<lparr>init_shape_angle := Some a\<rparr>\<rparr>)))))"

definition rotate_to_pointer :: "real \<Rightarrow> real \<Rightarrow> nat \<Rightarrow> App \<Rightarrow> outcome" where
  \<comment> \<open>The rest of the \<open>rotating\<close> branch, and the two writes that end the handler.\<close>
  "rotate_to_pointer cx cy r self =
     (case attr_y (heap self r) of
        Inl e \<Rightarrow> Raised e self
      | Inr sy \<Rightarrow>
          (case attr_x (heap self r) of
             Inl e \<Rightarrow> Raised e self
           | Inr sx \<Rightarrow>
               (let current_mouse_angle = degrees (atan2 (cy - sy) (cx - sx))
                in case init_rotate_angle (drag_data self) of
                     None \<Rightarrow> Raised (KeyError ''init_rotate_angle'') self
                   | Some ira \<Rightarrow>
                       (let delta_angle = current_mouse_angle - ira
                        in case init_shape_angle (drag_data self) of
                             None \<Rightarrow> Raised (KeyError ''init_shape_angle'') self
                           | Some isa \<Rightarrow>
                               Ok (set_drag_xy cx cy
                                     (redraw r (self\<lparr>heap := (heap self)
                                        (r := set_angle (py_mod (isa + delta_angle) 360) (heap self r))\<rparr>)))))))"

definition on_canvas_drag :: "real \<Rightarrow> real \<Rightarrow> App \<Rightarrow> outcome" where
  "on_canvas_drag cx cy self =
     (case selected_shape self of
        None \<Rightarrow> Ok self
      | Some r \<Rightarrow>
          (let shp = heap self r;
               dx = cx - (case DragData.x (drag_data self) of None \<Rightarrow> cx | Some v \<Rightarrow> v);
               dy = cy - (case DragData.y (drag_data self) of None \<Rightarrow> cy | Some v \<Rightarrow> v)
           in if mode self \<in> set [''create'', ''move'']
              then (let self1 = self\<lparr>heap := (heap self)(r := translate shp dx dy)\<rparr>
                    in if zoom_level self1 = 0 then Raised ZeroDivisionError self1
                       else Ok (set_drag_xy cx cy
                                  (redraw r
                                     (set_drag_xy cx cy
                                        (self1\<lparr>heap := (heap self1)
                                           (r := base_from_position (heap self1 r) (zoom_level self1))\<rparr>)))))
              else if mode self = ''resizing''
              then (let hname = (case handle (drag_data self) of None \<Rightarrow> [] | Some h \<Rightarrow> h)
                    in case resize_displayed shp hname cx cy (drag_data self) of
                         None \<Rightarrow> Ok (set_drag_xy cx cy (redraw r self))
                       | Some shp1 \<Rightarrow>
                           (let self1 = self\<lparr>heap := (heap self)(r := shp1)\<rparr>
                            in if zoom_level self1 = 0 then Raised ZeroDivisionError self1
                               else Ok (set_drag_xy cx cy
                                          (redraw r
                                             (self1\<lparr>heap := (heap self1)
                                                (r := base_from_size shp1 hname (zoom_level self1))\<rparr>)))))
              else if mode self = ''rotating''
              then (if \<not> is_TextShape shp
                    then (case record_rotation_start cx cy r self of
                            Raised e self1 \<Rightarrow> Raised e self1
                          | Ok self1 \<Rightarrow> rotate_to_pointer cx cy r self1)
                    else Ok (set_drag_xy cx cy self))
              else Ok (set_drag_xy cx cy self)))"

subsection \<open>Pointer-up, double click, delete\<close>

definition on_canvas_release :: "string \<Rightarrow> App \<Rightarrow> outcome" where
  \<comment> \<open>\<open>typed\<close> is what the text dialog returns, when the handler opens it.\<close>
  "on_canvas_release typed self0 =
     (let self1 = self0\<lparr>drag_data := (drag_data self0)
                    \<lparr>init_rotate_angle := None, init_shape_angle := None\<rparr>\<rparr>
      in case (if mode self1 = ''create'' then current_shape self1 else None) of
           Some r \<Rightarrow>
             (let self2 = (select_shape r self1)\<lparr>mode := ''edit''\<rparr>
              in if current_tool self2 = ''text''
                 then (case heap self2 r of
                         Text t \<Rightarrow>
                           Ok ((redraw r (self2\<lparr>heap := (heap self2)(r := Text (edit_text typed t))\<rparr>))
                                 \<lparr>current_shape := None\<rparr>)
                       | _ \<Rightarrow> Raised (AttributeError ''Shape'' ''edit_text'') self2)
                 else Ok (self2\<lparr>current_shape := None\<rparr>))
         | None \<Rightarrow>
             (if selected_shape self1 \<noteq> None then Ok (self1\<lparr>mode := ''edit''\<rparr>)
              else Ok (self1\<lparr>mode := ''idle''\<rparr>)))"

definition edit_text_shape :: "string \<Rightarrow> App \<Rightarrow> App" where
  "edit_text_shape typed self =
     (case selected_shape self of
        None \<Rightarrow> self
      | Some r \<Rightarrow>
          (case heap self r of
             Text t \<Rightarrow> redraw r (self\<lparr>heap := (heap self)(r := Text (edit_text typed t))\<rparr>)
           | _ \<Rightarrow> self))"

fun double_click_shapes :: "nat list \<Rightarrow> real \<Rightarrow> real \<Rightarrow> string \<Rightarrow> App \<Rightarrow> App" where
  "double_click_shapes [] cx cy typed self = self"
| "double_click_shapes (s # rest) cx cy typed self =
     (if is_TextShape (heap self s) \<and> contains_point (heap self s) cx cy
      then (let self1 = deselect_all self;
                (shp, c) = select (heap self1 s) (canvas self1)
            in edit_text_shape typed
                 (self1\<lparr>selected_shape := Some s, heap := (heap self1)(s := shp), canvas := c\<rparr>))
      else double_click_shapes rest cx cy typed self)"

definition on_double_click :: "real \<Rightarrow> real \<Rightarrow> string \<Rightarrow> App \<Rightarrow> App" where
  "on_double_click cx cy typed self = double_click_shapes (shapes self) cx cy typed self"

definition delete_selected_shape :: "App \<Rightarrow> App" where
  "delete_selected_shape self =
     (case selected_shape self of
        None \<Rightarrow> self
      | Some r \<Rightarrow>
          (let c1 = canvas_delete (shape_item (heap self r)) (canvas self);
               (shp, c2) = shape_delete_handles (heap self r) c1
           in self\<lparr>heap := (heap self)(r := shp), canvas := c2,
                   shapes := (if r \<in> set (shapes self) then remove1 r (shapes self) else shapes self),
                   selected_shape := None\<rparr>))"

subsection \<open>Events\<close>

text \<open>
  The host delivers events one at a time. An exception that leaves a handler is reported
  by Tk's main loop, which goes on with the state the handler left behind.
\<close>

datatype event =
    PointerDown real real
  | PointerDrag real real
  | PointerUp string
  | DoubleClick real real string
  | DeleteKey
  | ToolButton string
  | ZoomIn
  | ZoomOut
  | ResetZoom

fun handle_event :: "event \<Rightarrow> App \<Rightarrow> outcome" where
  "handle_event (PointerDown cx cy) s = Ok (on_canvas_click cx cy s)"
| "handle_event (PointerDrag cx cy) s = on_canvas_drag cx cy s"
| "handle_event (PointerUp typed) s = on_canvas_release typed s"
| "handle_event (DoubleClick cx cy typed) s = Ok (on_double_click cx cy typed s)"
| "handle_event DeleteKey s = Ok (delete_selected_shape s)"
| "handle_event (ToolButton name) s =
     (if name \<in> set [''select'', ''rectangle'', ''circle'', ''hourglass'', ''line'', ''text'']
      then Ok (set_tool name s) else Ok s)"
| "handle_event ZoomIn s = Ok (zoom_in s)"
| "handle_event ZoomOut s = Ok (zoom_out s)"
| "handle_event ResetZoom s = Ok (reset_zoom s)"

fun state_of :: "outcome \<Rightarrow> App" where
  "state_of (Ok s) = s"
| "state_of (Raised e s) = s"

definition run :: "event list \<Rightarrow> App \<Rightarrow> App" where
  "run es s = fold (\<lambda>e s'. state_of (handle_event e s')) es s"


fun raised_error :: "outcome \<Rightarrow> error option" where
  "raised_error (Ok s) = None"
| "raised_error (Raised e s) = Some e"

section \<open>Observations on shapes and states\<close>

fun geometry :: "shape \<Rightarrow> shape" where
  \<comment> \<open>A shape without its canvas bookkeeping: what \<open>draw\<close> and \<open>draw_handles\<close> leave alone.\<close>
  "geometry (Rectangle r) = Rectangle (r\<lparr>selected := False, handles := [], item := None\<rparr>)"
| "geometry (Circle c) = Circle (c\<lparr>selected := False, handles := [], item := None\<rparr>)"
| "geometry (Hourglass h) = Hourglass (h\<lparr>selected := False, handles := [], item := None\<rparr>)"
| "geometry (Line l) = Line (l\<lparr>selected := False, handles := [], item := None\<rparr>)"
| "geometry (Text t) = Text (t\<lparr>selected := False, handles := [], item := None, bbox := None\<rparr>)"

fun displayed_is_base_times :: "real \<Rightarrow> shape \<Rightarrow> bool" where
  \<comment> \<open>Every displayed attribute is the base attribute times \<open>z\<close>; the font size is the
     product truncated toward zero.\<close>
  "displayed_is_base_times z (Rectangle r) =
     (RectangleShape.x r = RectangleShape.base_x r * z \<and>
      RectangleShape.y r = RectangleShape.base_y r * z \<and>
      RectangleShape.width r = RectangleShape.base_width r * z \<and>
      RectangleShape.height r = RectangleShape.base_height r * z)"
| "displayed_is_base_times z (Circle c) =
     (CircleShape.x c = CircleShape.base_x c * z \<and>
      CircleShape.y c = CircleShape.base_y c * z \<and>
      radius c = base_radius c * z)"
| "displayed_is_base_times z (Hourglass h) =
     (HourglassShape.x h = HourglassShape.base_x h * z \<and>
      HourglassShape.y h = HourglassShape.base_y h * z \<and>
      HourglassShape.width h = HourglassShape.base_width h * z \<and>
      HourglassShape.height h = HourglassShape.base_height h * z)"
| "displayed_is_base_times z (Line l) =
     (x1 l = base_x1 l * z \<and> y1 l = base_y1 l * z \<and> x2 l = base_x2 l * z \<and> y2 l = base_y2 l * z)"
| "displayed_is_base_times z (Text t) =
     (TextShape.x t = TextShape.base_x t * z \<and>
      TextShape.y t = TextShape.base_y t * z \<and>
      font_size t = (if 0 \<le> base_font_size t * z then \<lfloor>base_font_size t * z\<rfloor>
                     else \<lceil>base_font_size t * z\<rceil>))"

definition font_size_of :: "shape \<Rightarrow> int option" where
  "font_size_of shp = (case shp of Text t \<Rightarrow> Some (font_size t) | _ \<Rightarrow> None)"

definition base_font_size_of :: "shape \<Rightarrow> real option" where
  "base_font_size_of shp = (case shp of Text t \<Rightarrow> Some (base_font_size t) | _ \<Rightarrow> None)"

definition text_bbox_of :: "shape \<Rightarrow> bbox4 option" where
  "text_bbox_of shp = (case shp of Text t \<Rightarrow> bbox t | _ \<Rightarrow> None)"

fun respects_floors :: "shape \<Rightarrow> bool" where
  "respects_floors (Rectangle r) = (10 \<le> RectangleShape.width r \<and> 10 \<le> RectangleShape.height r)"
| "respects_floors (Circle c) = (10 \<le> radius c)"
| "respects_floors (Hourglass h) = (10 \<le> HourglassShape.width h \<and> 10 \<le> HourglassShape.height h)"
| "respects_floors (Line l) = True"
| "respects_floors (Text t) = (8 \<le> font_size t)"

fun at_floors :: "shape \<Rightarrow> bool" where
  "at_floors (Rectangle r) = (RectangleShape.width r = 10 \<and> RectangleShape.height r = 10)"
| "at_floors (Circle c) = (radius c = 10)"
| "at_floors (Hourglass h) = (HourglassShape.width h = 10 \<and> HourglassShape.height h = 10)"
| "at_floors (Line l) = True"
| "at_floors (Text t) = (font_size t = 8)"

fun reference_point :: "shape \<Rightarrow> (real \<times> real) option" where
  \<comment> \<open>The point a resize measures from: the centre, or the anchor of a text.\<close>
  "reference_point (Rectangle r) = Some (RectangleShape.x r, RectangleShape.y r)"
| "reference_point (Circle c) = Some (CircleShape.x c, CircleShape.y c)"
| "reference_point (Hourglass h) = Some (HourglassShape.x h, HourglassShape.y h)"
| "reference_point (Line l) = None"
| "reference_point (Text t) = Some (TextShape.x t, TextShape.y t)"

fun base_position :: "shape \<Rightarrow> (real \<times> real) option" where
  "base_position (Rectangle r) = Some (RectangleShape.base_x r, RectangleShape.base_y r)"
| "base_position (Circle c) = Some (CircleShape.base_x c, CircleShape.base_y c)"
| "base_position (Hourglass h) = Some (HourglassShape.base_x h, HourglassShape.base_y h)"
| "base_position (Line l) = None"
| "base_position (Text t) = Some (TextShape.base_x t, TextShape.base_y t)"




definition handle_center :: "string \<Rightarrow> 'a Shape_scheme \<times> Canvas \<Rightarrow> (real \<times> real) option" where
  \<comment> \<open>The centre of the rectangle drawn for a named handle, read back from the canvas.\<close>
  "handle_center name sc =
     (case map_of (handles (fst sc)) name of
        None \<Rightarrow> None
      | Some hid \<Rightarrow>
          (case map_of (display (snd sc)) hid of
             Some (RectangleItem a b c d) \<Rightarrow> Some ((a + c) / 2, (b + d) / 2)
           | _ \<Rightarrow> None))"

definition canvas_ok :: "Canvas \<Rightarrow> bool" where
  \<comment> \<open>Identifiers are handed out in increasing order: every item on display is older than the next one.\<close>
  "canvas_ok c = (\<forall>e \<in> set (display c). fst e < next_id c)"

definition is_drawing_tool :: "string \<Rightarrow> bool" where
  "is_drawing_tool tool = (tool \<in> set [''rectangle'', ''circle'', ''hourglass'', ''line'', ''text''])"

definition selected_handles :: "App \<Rightarrow> (string \<times> nat) list" where
  \<comment> \<open>The handles of the selected shape, in the order they were made; none when nothing is selected.\<close>
  "selected_handles s =
     (case selected_shape s of None \<Rightarrow> [] | Some r \<Rightarrow> shape_handles (heap s r))"

definition handle_hit :: "App \<Rightarrow> real \<Rightarrow> real \<Rightarrow> string \<times> nat \<Rightarrow> bool" where
  \<comment> \<open>The point is inside the region of this handle, and the handle is one that starts a gesture.\<close>
  "handle_hit s cx cy h =
     (in_bbox (canvas_bbox (Some (snd h)) (canvas s)) cx cy \<and>
      fst h \<in> set [''resize'', ''end1'', ''end2'', ''rotate''])"

definition start_resizing :: "string \<Rightarrow> real \<Rightarrow> real \<Rightarrow> nat \<Rightarrow> App \<Rightarrow> App" where
  \<comment> \<open>What pointer-down does on a resize or endpoint handle of the selected shape \<open>r\<close>.\<close>
  "start_resizing hname cx cy r s =
     (let s1 = s\<lparr>mode := ''resizing'', drag_data := (drag_data s)\<lparr>handle := Some hname\<rparr>\<rparr>
      in case heap s1 r of
           Text t \<Rightarrow>
             (if hname = ''resize''
              then s1\<lparr>drag_data := (drag_data s1)
                         \<lparr>init_x := Some cx, init_y := Some cy, init_font_size := Some (font_size t)\<rparr>\<rparr>
              else s1)
         | _ \<Rightarrow> s1)"

definition canvas_ids :: "Canvas \<Rightarrow> nat list" where
  \<comment> \<open>The identifiers on display, bottom first.\<close>
  "canvas_ids c = map fst (display c)"

definition order_by :: "(nat \<Rightarrow> nat option) \<Rightarrow> nat list \<Rightarrow> nat list \<Rightarrow> nat list" where
  \<comment> \<open>The shapes \<open>shs\<close> in the order in which their items occur in a list of identifiers.\<close>
  "order_by items shs js = concat (map (\<lambda>j. filter (\<lambda>q. items q = Some j) shs) js)"

definition draw_order :: "App \<Rightarrow> nat list" where
  \<comment> \<open>The shapes of the shape sequence as the canvas stacks them, bottom first: for each
     item of the display list, the shapes drawn by that item.\<close>
  "draw_order s =
     concat (map (\<lambda>e. filter (\<lambda>q. shape_item (heap s q) = Some (fst e)) (shapes s))
               (display (canvas s)))"

definition items_apart :: "App \<Rightarrow> nat \<Rightarrow> bool" where
  \<comment> \<open>Canvas identifiers are not reused: the item of a shape is older than the next
     identifier and is not a handle of the selected shape or of the shape \<open>r\<close>.\<close>
  "items_apart s r =
     (\<forall>q \<in> set (shapes s). \<forall>j. shape_item (heap s q) = Some j \<longrightarrow>
        j < next_id (canvas s) \<and> j \<notin> snd ` set (selected_handles s) \<and>
        j \<notin> snd ` set (shape_handles (heap s r)))"

fun handle_names :: "shape \<Rightarrow> string list" where
  \<comment> \<open>The names of the handles that \<open>draw_handles\<close> makes for a shape, in the order it
     makes them; a text that has no bounding box gets none.\<close>
  "handle_names (Rectangle r) = [''resize'', ''rotate'']"
| "handle_names (Circle c) = [''resize'', ''rotate'']"
| "handle_names (Hourglass h) = [''resize'', ''rotate'']"
| "handle_names (Line l) = [''end1'', ''end2'']"
| "handle_names (Text t) = (case bbox t of None \<Rightarrow> [] | Some b \<Rightarrow> [''bbox'', ''resize''])"

section \<open>The specification's words\<close>

definition point_near_segment_spec ::
  "real \<Rightarrow> real \<Rightarrow> real \<Rightarrow> real \<Rightarrow> real \<Rightarrow> real \<Rightarrow> real \<Rightarrow> bool" where
  \<comment> \<open>The specification's \<open>pointNearSegment\<close>: project, clamp the parameter to \<open>[0,1]\<close>,
     compare the distance with the tolerance; a box around the point of a zero-length segment.\<close>
  "point_near_segment_spec px py ax ay bx by tol =
     (if ax = bx \<and> ay = by then \<bar>px - ax\<bar> < tol \<and> \<bar>py - ay\<bar> < tol
      else (let t = ((px - ax) * (bx - ax) + (py - ay) * (by - ay)) / ((bx - ax)\<^sup>2 + (by - ay)\<^sup>2);
                tc = max 0 (min 1 t);
                qx = ax + tc * (bx - ax);
                qy = ay + tc * (by - ay)
            in hypot (px - qx) (py - qy) \<le> tol))"

definition rotate_about :: "real \<Rightarrow> real \<Rightarrow> real \<Rightarrow> real \<times> real \<Rightarrow> real \<times> real" where
  \<comment> \<open>A local offset rotated by an angle in degrees and translated to the centre.\<close>
  "rotate_about cx cy deg p =
     (cx + fst p * cos (radians deg) - snd p * sin (radians deg),
      cy + fst p * sin (radians deg) + snd p * cos (radians deg))"

definition resize_handle_spec :: "RectangleShape \<Rightarrow> real \<times> real" where
  \<comment> \<open>The specification's resize handle: the local corner \<open>(w/2, h/2)\<close>, rotated with the shape.\<close>
  "resize_handle_spec r =
     rotate_about (RectangleShape.x r) (RectangleShape.y r) (RectangleShape.angle r)
       (RectangleShape.width r / 2, RectangleShape.height r / 2)"

definition rotate_handle_spec :: "RectangleShape \<Rightarrow> real \<times> real" where
  \<comment> \<open>The specification's rotate handle: the local point \<open>(0, -h/2 - 20)\<close>, rotated with the shape.\<close>
  "rotate_handle_spec r =
     rotate_about (RectangleShape.x r) (RectangleShape.y r) (RectangleShape.angle r)
       (0, - (RectangleShape.height r / 2) - 20)"

section \<open>Example states\<close>

definition sample_bbox :: "canvas_item \<Rightarrow> bbox4 option" where
  \<comment> \<open>A host for the examples: a rectangle reports its corners, a text a box of one font
     size per character.\<close>
  "sample_bbox it =
     (case it of
        RectangleItem a b c d \<Rightarrow> Some (a, b, c, d)
      | TextItem a b t fs \<Rightarrow> Some (a, b, a + of_int fs * of_nat (length t), b + of_int fs)
      | _ \<Rightarrow> None)"

definition empty_canvas :: Canvas where
  "empty_canvas = \<lparr>next_id = 1, display = [], item_bbox = (\<lambda>_. None)\<rparr>"

definition rect_tool_idle :: App where
  \<comment> \<open>The rectangle tool chosen on the empty canvas.\<close>
  "rect_tool_idle = run [ToolButton ''rectangle''] (App_init sample_bbox)"

definition rect_creating :: App where
  \<comment> \<open>The rectangle tool, pointer down on the empty canvas at (100,100).\<close>
  "rect_creating = run [ToolButton ''rectangle'', PointerDown 100 100] (App_init sample_bbox)"

definition rect_edit :: App where
  \<comment> \<open>The rectangle tool; a rectangle created at (100,100) and released: selected, mode \<open>edit\<close>.\<close>
  "rect_edit = run [ToolButton ''rectangle'', PointerDown 100 100, PointerUp []] (App_init sample_bbox)"


definition circle_rotating :: App where
  \<comment> \<open>A circle at (100,100), pointer down on its rotate handle.\<close>
  "circle_rotating =
     run [ToolButton ''circle'', PointerDown 100 100, PointerUp [], PointerDown 100 30]
       (App_init sample_bbox)"

definition circle_at_zoom_2 :: App where
  \<comment> \<open>Ten steps of zoom from 1.0, then a circle created at (100,100) and grabbed there.\<close>
  "circle_at_zoom_2 =
     run [ZoomIn, ZoomIn, ZoomIn, ZoomIn, ZoomIn, ZoomIn, ZoomIn, ZoomIn, ZoomIn, ZoomIn,
          ToolButton ''circle'', PointerDown 100 100, PointerUp [], PointerDown 100 100]
       (App_init sample_bbox)"

definition text_resizing :: App where
  \<comment> \<open>A text label "A" at (10,10), pointer down on its resize handle.\<close>
  "text_resizing =
     run [ToolButton ''text'', PointerDown 10 10, PointerUp ''A'', PointerDown 30 30]
       (App_init sample_bbox)"

definition text_resized :: App where
  \<comment> \<open>A text label is created, given the content "A", and its resize handle is dragged
     onto its anchor.\<close>
  "text_resized =
     run [ToolButton ''text'', PointerDown 10 10, PointerUp ''A'', PointerDown 30 30,
          PointerDrag 10 10, PointerUp []] (App_init sample_bbox)"

definition two_rects :: App where
  \<comment> \<open>Two rectangles, at (100,100) and then at (300,300); the second one is selected.\<close>
  "two_rects =
     run [ToolButton ''rectangle'', PointerDown 100 100, PointerUp [], PointerDown 300 300,
          PointerUp [], PointerDown 300 300, PointerUp []] (App_init sample_bbox)"

definition rect_resize_released :: App where
  \<comment> \<open>A rectangle at (100,100); pointer down on its resize handle, and released.\<close>
  "rect_resize_released =
     run [ToolButton ''rectangle'', PointerDown 100 100, PointerUp [], PointerDown 150 130,
          PointerUp []] (App_init sample_bbox)"

definition rect_moving :: App where
  \<comment> \<open>A rectangle at (100,100); with the select tool, pointer down on it: mode \<open>move\<close>.\<close>
  "rect_moving =
     run [ToolButton ''rectangle'', PointerDown 100 100, PointerUp [], ToolButton ''select'',
          PointerDown 100 100] (App_init sample_bbox)"

section \<open>Numeric lemmas\<close>

lemma hypot_eq_0_iff: "hypot a b = 0 \<longleftrightarrow> a = 0 \<and> b = 0"
  by (simp add: hypot_def sum_power2_eq_zero_iff)

lemma hypot_power2: "(hypot a b)\<^sup>2 = a\<^sup>2 + b\<^sup>2"
  by (simp add: hypot_def)

lemma hypot_le_iff: "0 \<le> t \<Longrightarrow> hypot a b \<le> t \<longleftrightarrow> a\<^sup>2 + b\<^sup>2 \<le> t\<^sup>2"
  unfolding hypot_def
  by (metis real_sqrt_le_iff real_sqrt_abs abs_of_nonneg)

subsection \<open>The float remainder modulo 360\<close>



lemma floor_log2_eq_8:
  assumes "256 \<le> w" and "w < 512"
  shows "\<lfloor>log 2 w\<rfloor> = 8"
proof -
  have "0 < w" using assms by simp
  then show ?thesis using assms by (simp add: floor_log_eq_powr_iff)
qed

lemma powr_neg_int:
  assumes "e \<le> (0::int)"
  shows "(2::real) powr (of_int e) = 1 / 2 ^ nat (- e)"
proof -
  have "(2::real) powr (of_int e) = 2 powr (- real (nat (- e)))" using assms by simp
  also have "\<dots> = inverse (2 powr (real (nat (- e))))" by (rule powr_minus)
  also have "\<dots> = inverse (2 ^ nat (- e))" by (simp only: powr_realpow zero_less_numeral)
  finally show ?thesis by (simp add: divide_inverse)
qed


lemma round_half_even_of_int: "round_half_even (of_int n) = n"
  by (simp add: round_half_even_def)


lemma float_round_at_exp_8:
  assumes "256 \<le> w" and "w < 512"
  shows "float_round w = of_int (round_half_even (w * 2 ^ 44)) / 2 ^ 44"
proof -
  have a: "\<bar>w\<bar> = w" "w \<noteq> 0" using assms by simp_all
  have "(2::real) powr (of_int (\<lfloor>log 2 w\<rfloor> - 52)) = 1 / 2 ^ nat (- (\<lfloor>log 2 w\<rfloor> - 52))"
    using floor_log2_eq_8 [OF assms] by (intro powr_neg_int) simp
  then have u: "(2::real) powr (of_int (\<lfloor>log 2 w\<rfloor> - 52)) = 1 / 2 ^ 44"
    using floor_log2_eq_8 [OF assms] by simp
  have "float_round w = of_int (round_half_even (w / (1 / 2 ^ 44))) * (1 / 2 ^ 44)"
    unfolding float_round_def Let_def a(1) u using a(2) by simp
  then show ?thesis by simp
qed




lemma py_mod_360_eq:
  "py_mod a 360 =
     (if 0 \<le> a \<or> a - 360 * of_int \<lfloor>a / 360\<rfloor> = 0 then a - 360 * of_int \<lfloor>a / 360\<rfloor>
      else float_round (a - 360 * of_int \<lfloor>a / 360\<rfloor>))"
proof -
  define w where "w = a - 360 * of_int \<lfloor>a / 360\<rfloor>"
  have fl: "of_int \<lfloor>a / 360\<rfloor> \<le> a / 360" "a / 360 < of_int \<lfloor>a / 360\<rfloor> + 1" by linarith+
  have w: "0 \<le> w" "w < 360" using fl by (simp_all add: w_def field_simps)
  have "py_mod a 360 = (if 0 \<le> a \<or> w = 0 then w else float_round w)"
  proof (cases "0 \<le> a")
    case True
    then have "fmod a 360 = w" by (simp add: fmod_def py_int_def w_def)
    then have "py_mod a 360 = w" using w by (simp add: py_mod_def Let_def)
    then show ?thesis using True by simp
  next
    case False
    then have m: "fmod a 360 = a - 360 * of_int \<lceil>a / 360\<rceil>" by (simp add: fmod_def py_int_def)
    show ?thesis
    proof (cases "a / 360 = of_int \<lfloor>a / 360\<rfloor>")
      case True
      then have "\<lceil>a / 360\<rceil> = \<lfloor>a / 360\<rfloor>" by (simp add: ceiling_altdef)
      moreover have "w = 0" using True by (simp add: w_def)
      ultimately have "py_mod a 360 = 0" using m by (simp add: py_mod_def Let_def w_def)
      then show ?thesis using \<open>w = 0\<close> by simp
    next
      case nonint: False
      then have c: "\<lceil>a / 360\<rceil> = \<lfloor>a / 360\<rfloor> + 1" by (simp add: ceiling_altdef)
      have wpos: "w \<noteq> 0" using nonint by (simp add: w_def field_simps)
      have mw: "fmod a 360 = w - 360" using m c by (simp add: w_def)
      then have "py_mod a 360 = float_round w" using w wpos by (simp add: py_mod_def Let_def)
      then show ?thesis using False wpos by simp
    qed
  qed
  then show ?thesis by (simp only: w_def)
qed


lemma float_round_270: "float_round 270 = 270"
proof -
  have "(270::real) * 2 ^ 44 = of_int (270 * 2 ^ 44)" by simp
  then have "round_half_even ((270::real) * 2 ^ 44) = 270 * 2 ^ 44"
    by (simp only: round_half_even_of_int)
  moreover have "float_round 270 = of_int (round_half_even (270 * 2 ^ 44)) / 2 ^ 44"
    by (rule float_round_at_exp_8) simp_all
  ultimately have "float_round 270 = of_int (270 * 2 ^ 44) / 2 ^ 44" by (simp only:)
  then show ?thesis by simp
qed

lemma py_mod_values: "py_mod 90 360 = 90 \<and> py_mod (- 90) 360 = 270"
proof -
  have "\<lfloor>(90::real) / 360\<rfloor> = 0" "\<lfloor>- (90::real) / 360\<rfloor> = - 1"
    by (simp_all add: floor_eq_iff)
  then show ?thesis using py_mod_360_eq [of 90] py_mod_360_eq [of "- 90"] float_round_270
    by simp
qed

section \<open>Hit-testing a line\<close>

text \<open>
  Claim C7, as the code has it. \<open>LineShape.contains_point\<close> projects the point onto the
  line through the endpoints and does not clamp the projection parameter: where the
  parameter falls outside \<open>[0,1]\<close> the answer is false; inside, the answer is true exactly
  when the point is within 5 units of its projection. A zero-length line answers with an
  open box of half-width 5 around its point.
\<close>

theorem LineShape_contains_point_segment:
  "LineShape_contains_point l px py =
     (if x1 l = x2 l \<and> y1 l = y2 l then \<bar>px - x1 l\<bar> < 5 \<and> \<bar>py - y1 l\<bar> < 5
      else (let u = ((px - x1 l) * (x2 l - x1 l) + (py - y1 l) * (y2 l - y1 l))
                    / ((x2 l - x1 l)\<^sup>2 + (y2 l - y1 l)\<^sup>2)
            in 0 \<le> u \<and> u \<le> 1 \<and>
               (px - (x1 l + u * (x2 l - x1 l)))\<^sup>2 + (py - (y1 l + u * (y2 l - y1 l)))\<^sup>2 \<le> 25))"
proof -
  have five: "(5::real)\<^sup>2 = 25" by simp
  show ?thesis
    unfolding LineShape_contains_point_def Let_def hypot_eq_0_iff hypot_power2
    using hypot_le_iff [of 5]
    by (auto simp: five not_less)
qed

text \<open>The scenario of the specification: the line from (0,0) to (100,0), hit at (50,3), missed at (50,10).\<close>

theorem LineShape_contains_point_segment_witness:
  "LineShape_contains_point (LineShape_init 0 0 100 0) 50 3 \<and>
   \<not> LineShape_contains_point (LineShape_init 0 0 100 0) 50 10"
  using LineShape_contains_point_segment [of "LineShape_init 0 0 100 0" 50 3]
    LineShape_contains_point_segment [of "LineShape_init 0 0 100 0" 50 10]
  by (simp add: LineShape_init_def)

text \<open>
  The point (-3,0) lies 3 units from the endpoint (0,0) of that line: the clamped test of
  the specification accepts it, the code rejects it.
\<close>

theorem LineShape_contains_point_clamp_counterexample:
  "point_near_segment_spec (- 3) 0 0 0 100 0 5 \<and>
   \<not> LineShape_contains_point (LineShape_init 0 0 100 0) (- 3) 0"
proof -
  have a: "point_near_segment_spec (- 3) 0 0 0 100 0 5"
    by (simp add: point_near_segment_spec_def hypot_le_iff)
  have "hypot 100 0 = 100" by (simp add: hypot_def)
  then have b: "\<not> LineShape_contains_point (LineShape_init 0 0 100 0) (- 3) 0"
    by (simp add: LineShape_contains_point_def LineShape_init_def)
  from a b show ?thesis by simp
qed

section \<open>Handles of a rectangle\<close>

lemma py_range2_8: "py_range2 8 = [0, 2, 4, 6]"
  by (simp add: py_range2_def upt_rec)

lemma pairs_upto_8:
  "length cs = 8 \<Longrightarrow>
   pairs_upto cs (length cs) = [(cs ! 0, cs ! 1), (cs ! 2, cs ! 3), (cs ! 4, cs ! 5), (cs ! 6, cs ! 7)]"
  by (simp add: pairs_upto_def py_range2_8)

lemma get_corners_length: "length (get_corners r) = 8"
  by (simp add: get_corners_def Let_def)

lemma canvas_delete_frame:
  "next_id (canvas_delete i c) = next_id c \<and> set (display (canvas_delete i c)) \<subseteq> set (display c)"
  by (cases i) (auto simp: canvas_delete_def)

lemma fold_canvas_delete_frame:
  "next_id (fold (\<lambda>hid c. canvas_delete (Some hid) c) hs c) = next_id c \<and>
   set (display (fold (\<lambda>hid c. canvas_delete (Some hid) c) hs c)) \<subseteq> set (display c)"
proof (induction hs arbitrary: c)
  case Nil
  then show ?case by simp
next
  case (Cons h hs)
  have "set (display (fold (\<lambda>hid c. canvas_delete (Some hid) c) hs (canvas_delete (Some h) c)))
          \<subseteq> set (display (canvas_delete (Some h) c))"
    using Cons.IH by blast
  also have "\<dots> \<subseteq> set (display c)" using canvas_delete_frame by blast
  finally show ?case using Cons.IH [of "canvas_delete (Some h) c"] canvas_delete_frame [of "Some h" c]
    by simp
qed

lemma delete_handles_canvas:
  "next_id (snd (delete_handles sh c)) = next_id c \<and>
   set (display (snd (delete_handles sh c))) \<subseteq> set (display c)"
  using fold_canvas_delete_frame by (simp add: delete_handles_def)

lemma delete_handles_fst: "fst (delete_handles sh c) = sh\<lparr>handles := []\<rparr>"
  by (simp add: delete_handles_def)

lemma map_of_fresh: "\<forall>e \<in> set xs. fst e < n \<Longrightarrow> map_of xs n = None \<and> map_of xs (Suc n) = None"
  by (induction xs) auto

lemma RectangleShape_handle_centers:
  assumes "canvas_ok c"
  shows "handle_center ''resize'' (RectangleShape_draw_handles r c) = Some (resize_handle_spec r) \<and>
         handle_center ''rotate'' (RectangleShape_draw_handles r c) =
           Some (fst (rotate_about (RectangleShape.x r) (RectangleShape.y r) (RectangleShape.angle r)
                        (0, - (RectangleShape.height r / 2))),
                 snd (rotate_about (RectangleShape.x r) (RectangleShape.y r) (RectangleShape.angle r)
                        (0, - (RectangleShape.height r / 2))) - 20)"
proof -
  obtain r1 c1 where d: "delete_handles r c = (r1, c1)" by fastforce
  have r1: "r1 = r\<lparr>handles := []\<rparr>" using d delete_handles_fst [of r c] by simp
  have c1: "next_id c1 = next_id c" "set (display c1) \<subseteq> set (display c)"
    using d delete_handles_canvas [of r c] by simp_all
  have fresh: "map_of (display c1) (next_id c1) = None" "map_of (display c1) (Suc (next_id c1)) = None"
    using map_of_fresh [of "display c1" "next_id c1"] assms c1 by (auto simp: canvas_ok_def)
  have len: "length (get_corners r1) = 8" by (rule get_corners_length)
  show ?thesis
    unfolding RectangleShape_draw_handles_def d Let_def prod.case pairs_upto_8 [OF len]
    using fresh
    by (simp add: r1 get_corners_def Let_def canvas_create_def
        dict_set_def handle_center_def resize_handle_spec_def rotate_about_def map_add_def
        field_simps)
qed

text \<open>
  Claim C9, as the code has it. After \<open>RectangleShape.draw_handles\<close> the resize handle is
  centred on the local corner \<open>(w/2, h/2)\<close> rotated with the shape about its centre. The
  rotate handle is centred 20 units above, in canvas coordinates, the rotated midpoint of
  the top edge: the midpoint \<open>(0, -h/2)\<close> turns with the shape, the offset of 20 does not.
\<close>

theorem RectangleShape_handle_positions:
  "canvas_ok c \<Longrightarrow>
   handle_center ''resize'' (RectangleShape_draw_handles r c) =
     Some (rotate_about (RectangleShape.x r) (RectangleShape.y r) (RectangleShape.angle r)
             (RectangleShape.width r / 2, RectangleShape.height r / 2)) \<and>
   handle_center ''rotate'' (RectangleShape_draw_handles r c) =
     Some (fst (rotate_about (RectangleShape.x r) (RectangleShape.y r) (RectangleShape.angle r)
                  (0, - (RectangleShape.height r / 2))),
           snd (rotate_about (RectangleShape.x r) (RectangleShape.y r) (RectangleShape.angle r)
                  (0, - (RectangleShape.height r / 2))) - 20)"
  using RectangleShape_handle_centers [of c r] by (simp add: resize_handle_spec_def)

text \<open>The rectangle 100 by 60 at (100,100), not rotated: handles at (150,130) and (100,50).\<close>

theorem RectangleShape_handle_positions_witness:
  "canvas_ok empty_canvas \<and>
   handle_center ''resize'' (RectangleShape_draw_handles (RectangleShape_init 100 100 100 60) empty_canvas)
     = Some (150, 130) \<and>
   handle_center ''rotate'' (RectangleShape_draw_handles (RectangleShape_init 100 100 100 60) empty_canvas)
     = Some (100, 50)"
proof -
  have ok: "canvas_ok empty_canvas" by (simp add: canvas_ok_def empty_canvas_def)
  show ?thesis
    using ok RectangleShape_handle_positions [OF ok, of "RectangleShape_init 100 100 100 60"]
    by (simp add: RectangleShape_init_def rotate_about_def radians_def)
qed

text \<open>
  The same rectangle turned by 90 degrees: the code centres the rotate handle at (130,80),
  the local point \<open>(0, -h/2 - 20)\<close> rotated with the shape is (150,100).
\<close>

theorem RectangleShape_rotate_handle_counterexample:
  "handle_center ''rotate''
     (RectangleShape_draw_handles ((RectangleShape_init 100 100 100 60)\<lparr>RectangleShape.angle := 90\<rparr>)
        empty_canvas) = Some (130, 80) \<and>
   rotate_handle_spec ((RectangleShape_init 100 100 100 60)\<lparr>RectangleShape.angle := 90\<rparr>) = (150, 100)"
proof -
  have ok: "canvas_ok empty_canvas" by (simp add: canvas_ok_def empty_canvas_def)
  have quarter: "cos (radians 90) = 0" "sin (radians 90) = 1"
    by (simp_all add: radians_def)
  show ?thesis
    using RectangleShape_handle_centers [OF ok, of "(RectangleShape_init 100 100 100 60)\<lparr>RectangleShape.angle := 90\<rparr>"]
    by (simp add: RectangleShape_init_def rotate_about_def rotate_handle_spec_def quarter)
qed

section \<open>Zoom\<close>

lemma geometry_draw: "geometry (fst (draw shp c)) = geometry shp"
  by (cases shp)
     (auto simp: RectangleShape_draw_def CircleShape_draw_def HourglassShape_draw_def
        LineShape_draw_def TextShape_draw_def canvas_create_def Let_def
        split: option.splits prod.splits)

lemma geometry_draw_handles: "geometry (fst (draw_handles shp c)) = geometry shp"
  by (cases shp)
     (auto simp: RectangleShape_draw_handles_def CircleShape_draw_handles_def
        HourglassShape_draw_handles_def LineShape_draw_handles_def TextShape_draw_handles_def
        delete_handles_def canvas_create_def Let_def
        split: option.splits prod.splits)

lemma geometry_set_item: "geometry (set_item i shp) = geometry shp"
  by (cases shp) auto

lemma displayed_is_base_times_geometry:
  "displayed_is_base_times z (geometry shp) = displayed_is_base_times z shp"
  by (cases shp) auto

lemma displayed_zoom_shape: "displayed_is_base_times z (zoom_shape z shp)"
  by (cases shp) (auto simp: py_int_def)

lemma zoom_one_frame:
  "shapes (zoom_one r s) = shapes s \<and> zoom_level (zoom_one r s) = zoom_level s \<and>
   (\<forall>q. q \<noteq> r \<longrightarrow> heap (zoom_one r s) q = heap s q)"
  by (simp add: zoom_one_def Let_def split: prod.splits)

lemma zoom_one_geometry:
  "geometry (heap (zoom_one r s) r) = geometry (zoom_shape (zoom_level s) (heap s r))"
proof -
  define shp0 where "shp0 = zoom_shape (zoom_level s) (heap s r)"
  obtain shp1 c1 where a: "(case shape_item shp0 of
                          None \<Rightarrow> (shp0, canvas s)
                        | Some i \<Rightarrow> if i = 0 then (shp0, canvas s)
                                    else (set_item None shp0, canvas_delete (Some i) (canvas s))) = (shp1, c1)"
    by fastforce
  have g1: "geometry shp1 = geometry shp0"
    using a by (auto simp: geometry_set_item split: option.splits if_splits)
  obtain shp2 c2 where b: "draw shp1 c1 = (shp2, c2)" by fastforce
  have g2: "geometry shp2 = geometry shp1" using geometry_draw [of shp1 c1] b by simp
  obtain shp3 c3 where c: "(if shape_selected shp2 then draw_handles shp2 c2 else (shp2, c2)) = (shp3, c3)"
    by fastforce
  have g3: "geometry shp3 = geometry shp2"
    using c geometry_draw_handles [of shp2 c2] by (auto split: if_splits)
  have "heap (zoom_one r s) r = shp3"
    unfolding zoom_one_def Let_def shp0_def [symmetric] a prod.case b c by simp
  then show ?thesis using g1 g2 g3 by (simp add: shp0_def)
qed

lemma zoom_one_displayed:
  "displayed_is_base_times (zoom_level s) (heap (zoom_one r s) r)"
  using zoom_one_geometry [of r s] displayed_zoom_shape [of "zoom_level s" "heap s r"]
    displayed_is_base_times_geometry
  by metis

lemma fold_zoom_one_frame:
  "shapes (fold zoom_one rs s) = shapes s \<and> zoom_level (fold zoom_one rs s) = zoom_level s"
  by (induction rs arbitrary: s) (simp_all add: zoom_one_frame)

lemma fold_zoom_one_displayed:
  "r \<in> set rs \<Longrightarrow> displayed_is_base_times (zoom_level s) (heap (fold zoom_one rs s) r)"
proof (induction rs arbitrary: s rule: rev_induct)
  case Nil
  then show ?case by simp
next
  case (snoc q rs)
  let ?s1 = "fold zoom_one rs s"
  have z: "zoom_level ?s1 = zoom_level s" by (simp add: fold_zoom_one_frame)
  show ?case
  proof (cases "r = q")
    case True
    then show ?thesis using zoom_one_displayed [of ?s1 q] z by simp
  next
    case False
    then have "r \<in> set rs" using snoc.prems by simp
    then have "displayed_is_base_times (zoom_level s) (heap ?s1 r)" by (rule snoc.IH)
    then show ?thesis using False zoom_one_frame [of q ?s1] by simp
  qed
qed

lemma zoom_image_frame:
  "shapes (zoom_image s) = shapes s \<and> zoom_level (zoom_image s) = zoom_level s \<and> heap (zoom_image s) = heap s"
  by (simp add: zoom_image_def Let_def split: option.splits prod.splits)

lemma apply_zoom_frame:
  "shapes (apply_zoom s) = shapes s \<and> zoom_level (apply_zoom s) = zoom_level s"
  by (simp add: apply_zoom_def Let_def fold_zoom_one_frame zoom_image_frame)

lemma apply_zoom_displayed_aux:
  "r \<in> set (shapes s) \<Longrightarrow> displayed_is_base_times (zoom_level s) (heap (apply_zoom s) r)"
proof -
  assume r: "r \<in> set (shapes s)"
  define s2 where "s2 = (zoom_image s)\<lparr>canvas_width := max 800 (py_int (of_int (base_canvas_width (zoom_image s)) * zoom_level (zoom_image s))),
     canvas_height := max 600 (py_int (of_int (base_canvas_height (zoom_image s)) * zoom_level (zoom_image s)))\<rparr>"
  have eq: "apply_zoom s = fold zoom_one (shapes s2) s2"
    by (simp add: apply_zoom_def Let_def s2_def)
  have "shapes s2 = shapes s" "zoom_level s2 = zoom_level s"
    by (simp_all add: s2_def zoom_image_frame)
  then show ?thesis using fold_zoom_one_displayed [of r "shapes s2" s2] r eq by simp
qed

lemmas shape_defs =
  RectangleShape_draw_def CircleShape_draw_def HourglassShape_draw_def LineShape_draw_def
  TextShape_draw_def RectangleShape_draw_handles_def CircleShape_draw_handles_def
  HourglassShape_draw_handles_def LineShape_draw_handles_def TextShape_draw_handles_def
  delete_handles_def canvas_create_def canvas_delete_def canvas_bbox_def canvas_coords_def
  tag_raise_def dict_set_def select_def deselect_def
  RectangleShape_init_def CircleShape_init_def HourglassShape_init_def LineShape_init_def
  TextShape_init_def RectangleShape_contains_point_def CircleShape_contains_point_def
  TextShape_contains_point_def sample_bbox_def in_bbox_def edit_text_def

lemmas app_defs =
  run_def App_init_def set_tool_def deselect_all_def select_shape_def
  on_canvas_click_def create_shape_def new_shape_def drag_xy_def drag_empty_def
  on_canvas_release_def on_canvas_drag_def redraw_def set_drag_xy_def

lemmas zoom_defs =
  zoom_in_def zoom_out_def reset_zoom_def apply_zoom_def zoom_image_def zoom_one_def
  max_zoom_def min_zoom_def zoom_step_def

lemma text_resized_shapes: "shapes text_resized = [0] \<and> zoom_level text_resized = 1"
  unfolding text_resized_def
  by (simp add: app_defs shape_defs Let_def hypot_def py_int_def)

lemma text_resized_zoom_in:
  "font_size_of (heap (zoom_in text_resized) 0) = Some 8 \<and>
   base_font_size_of (heap (zoom_in text_resized) 0) = Some 8 \<and>
   zoom_level (zoom_in text_resized) = 11 / 10"
  unfolding text_resized_def
  by (simp add: app_defs shape_defs zoom_defs Let_def hypot_def py_int_def
      font_size_of_def base_font_size_of_def)

text \<open>
  Claim C1, as the code has it. After \<open>apply_zoom\<close>, for every shape of the shape sequence:
  the displayed position, size, radius and endpoints are the base values times the zoom
  level, and the font size of a text is the base font size times the zoom level truncated
  toward zero (\<open>int(...)\<close>). The zoom level and the shape sequence are as before, so this
  holds at every level \<open>zoom_in\<close>, \<open>zoom_out\<close> and \<open>reset_zoom\<close> set before they call it.
\<close>

theorem apply_zoom_displayed:
  "r \<in> set (shapes s) \<Longrightarrow>
   displayed_is_base_times (zoom_level (apply_zoom s)) (heap (apply_zoom s) r) \<and>
   shapes (apply_zoom s) = shapes s \<and> zoom_level (apply_zoom s) = zoom_level s"
  using apply_zoom_displayed_aux [of r s] apply_zoom_frame [of s] by simp

text \<open>The resized text label, zoomed to 1.1.\<close>

theorem apply_zoom_displayed_witness:
  "0 \<in> set (shapes (text_resized\<lparr>zoom_level := 11 / 10\<rparr>)) \<and>
   displayed_is_base_times (zoom_level (apply_zoom (text_resized\<lparr>zoom_level := 11 / 10\<rparr>)))
     (heap (apply_zoom (text_resized\<lparr>zoom_level := 11 / 10\<rparr>)) 0) \<and>
   shapes (apply_zoom (text_resized\<lparr>zoom_level := 11 / 10\<rparr>)) = [0] \<and>
   zoom_level (apply_zoom (text_resized\<lparr>zoom_level := 11 / 10\<rparr>)) = 11 / 10"
proof -
  have h: "0 \<in> set (shapes (text_resized\<lparr>zoom_level := 11 / 10\<rparr>))"
    by (simp add: text_resized_shapes)
  show ?thesis
    using h apply_zoom_displayed [OF h] by (simp add: text_resized_shapes)
qed

text \<open>
  The resized label has base font size 8. One \<open>zoom_in\<close> from 1.0 sets the zoom level to
  1.1: the font size becomes 8, where 8.8 rounded to an integer is 9.
\<close>

theorem apply_zoom_font_size_counterexample:
  "font_size_of (heap (zoom_in text_resized) 0) = Some 8 \<and>
   map_option (\<lambda>b. round (b * zoom_level (zoom_in text_resized)))
     (base_font_size_of (heap (zoom_in text_resized) 0)) = Some 9"
proof -
  have f: "font_size_of (heap (zoom_in text_resized) 0) = Some 8"
    and b: "base_font_size_of (heap (zoom_in text_resized) 0) = Some 8"
    and z: "zoom_level (zoom_in text_resized) = 11 / 10"
    using text_resized_zoom_in by blast+
  have nine: "round (8 * (11 / 10) :: real) = 9" by (simp add: round_def)
  show ?thesis unfolding b z option.map using f nine by blast
qed

text \<open>The zoom level starts at 1.0 and stays positive, so no handler divides by zero.\<close>

lemma zoom_level_stays_positive:
  "0 < zoom_level s \<Longrightarrow>
   0 < zoom_level (zoom_in s) \<and> 0 < zoom_level (zoom_out s) \<and> 0 < zoom_level (reset_zoom s)"
  by (simp add: zoom_in_def zoom_out_def reset_zoom_def apply_zoom_frame min_zoom_def zoom_step_def)

section \<open>Pointer-drag\<close>

lemma redraw_frame:
  "geometry (heap (redraw r s) r) = geometry (heap s r) \<and>
   (\<forall>q. q \<noteq> r \<longrightarrow> heap (redraw r s) q = heap s q) \<and>
   shapes (redraw r s) = shapes s \<and> selected_shape (redraw r s) = selected_shape s \<and>
   mode (redraw r s) = mode s \<and> drag_data (redraw r s) = drag_data s \<and>
   zoom_level (redraw r s) = zoom_level s \<and> current_tool (redraw r s) = current_tool s \<and>
   current_shape (redraw r s) = current_shape s"
proof -
  obtain shp1 c1 where a: "draw (heap s r) (canvas s) = (shp1, c1)" by fastforce
  obtain shp2 c2 where b: "draw_handles shp1 c1 = (shp2, c2)" by fastforce
  have "geometry shp2 = geometry (heap s r)"
    using geometry_draw [of "heap s r" "canvas s"] geometry_draw_handles [of shp1 c1] a b by simp
  then show ?thesis by (simp add: redraw_def a b)
qed

lemma set_drag_xy_frame:
  "heap (set_drag_xy cx cy s) = heap s \<and> shapes (set_drag_xy cx cy s) = shapes s \<and>
   selected_shape (set_drag_xy cx cy s) = selected_shape s \<and> mode (set_drag_xy cx cy s) = mode s \<and>
   zoom_level (set_drag_xy cx cy s) = zoom_level s \<and>
   init_rotate_angle (drag_data (set_drag_xy cx cy s)) = init_rotate_angle (drag_data s) \<and>
   init_shape_angle (drag_data (set_drag_xy cx cy s)) = init_shape_angle (drag_data s)"
  by (simp add: set_drag_xy_def)

lemma respects_floors_geometry: "respects_floors (geometry shp) = respects_floors shp"
  by (cases shp) auto

lemma at_floors_geometry: "at_floors (geometry shp) = at_floors shp"
  by (cases shp) auto

lemma geometry_cong:
  "geometry a = geometry b \<Longrightarrow>
   respects_floors a = respects_floors b \<and> at_floors a = at_floors b"
  using respects_floors_geometry at_floors_geometry by metis

lemma hypot_0_0: "hypot 0 0 = 0"
  by (simp add: hypot_def)

lemma resize_displayed_floors:
  assumes "is_TextShape shp \<longrightarrow> init_x dd \<noteq> None \<and> init_y dd \<noteq> None \<and> init_font_size dd \<noteq> None"
  shows "\<exists>shp1. resize_displayed shp ''resize'' cx cy dd = Some shp1 \<and>
           respects_floors (base_from_size shp1 ''resize'' z) \<and>
           (reference_point shp = Some (cx, cy) \<longrightarrow> at_floors (base_from_size shp1 ''resize'' z))"
proof (cases shp)
  case (Text t)
  then obtain ix iy ifs where "init_x dd = Some ix" "init_y dd = Some iy" "init_font_size dd = Some ifs"
    using assms by auto
  then show ?thesis using Text by (simp add: Let_def hypot_0_0 py_int_def)
qed (simp_all add: Let_def hypot_0_0)

lemma on_canvas_drag_resize_floors_aux:
  assumes sel: "selected_shape s = Some r"
    and md: "mode s = ''resizing''"
    and hn: "handle (drag_data s) = Some ''resize''"
    and z: "zoom_level s \<noteq> 0"
    and keys: "is_TextShape (heap s r) \<longrightarrow>
                 init_x (drag_data s) \<noteq> None \<and> init_y (drag_data s) \<noteq> None \<and>
                 init_font_size (drag_data s) \<noteq> None"
  shows "\<exists>s'. on_canvas_drag cx cy s = Ok s' \<and> respects_floors (heap s' r) \<and>
           (reference_point (heap s r) = Some (cx, cy) \<longrightarrow> at_floors (heap s' r))"
proof -
  obtain shp1 where r1: "resize_displayed (heap s r) ''resize'' cx cy (drag_data s) = Some shp1"
    and fl: "respects_floors (base_from_size shp1 ''resize'' (zoom_level s))"
    and mn: "reference_point (heap s r) = Some (cx, cy) \<longrightarrow>
               at_floors (base_from_size shp1 ''resize'' (zoom_level s))"
    using resize_displayed_floors [OF keys, of cx cy "zoom_level s"] by blast
  define s2 where "s2 = s\<lparr>heap := (heap s)(r := base_from_size shp1 ''resize'' (zoom_level s))\<rparr>"
  have res: "on_canvas_drag cx cy s = Ok (set_drag_xy cx cy (redraw r s2))"
    using sel md hn z r1 by (simp add: on_canvas_drag_def Let_def s2_def)
  have "geometry (heap (set_drag_xy cx cy (redraw r s2)) r)
          = geometry (base_from_size shp1 ''resize'' (zoom_level s))"
    using redraw_frame [of r s2] set_drag_xy_frame [of cx cy "redraw r s2"] by (simp add: s2_def)
  then show ?thesis using res fl mn geometry_cong by metis
qed

text \<open>
  A drag with a shape selected, in mode \<open>create\<close> or \<open>move\<close>: the shape is translated by
  the pointer delta since the last event, and its base position is set to the displayed
  position divided by the zoom level.
\<close>

lemma on_canvas_drag_move:
  assumes "selected_shape s = Some r" and "mode s = ''create'' \<or> mode s = ''move''"
    and "zoom_level s \<noteq> 0"
    and "DragData.x (drag_data s) = Some px" and "DragData.y (drag_data s) = Some py"
  shows "\<exists>s'. on_canvas_drag cx cy s = Ok s' \<and>
           geometry (heap s' r)
             = geometry (base_from_position (translate (heap s r) (cx - px) (cy - py)) (zoom_level s)) \<and>
           DragData.x (drag_data s') = Some cx \<and> DragData.y (drag_data s') = Some cy"
proof -
  define s2 where "s2 = set_drag_xy cx cy (s\<lparr>heap := (heap s)
     (r := base_from_position (translate (heap s r) (cx - px) (cy - py)) (zoom_level s))\<rparr>)"
  have res: "on_canvas_drag cx cy s = Ok (set_drag_xy cx cy (redraw r s2))"
    using assms by (auto simp: on_canvas_drag_def Let_def s2_def)
  have "geometry (heap (set_drag_xy cx cy (redraw r s2)) r)
          = geometry (base_from_position (translate (heap s r) (cx - px) (cy - py)) (zoom_level s))"
    using redraw_frame [of r s2] by (simp add: s2_def set_drag_xy_def)
  moreover have "DragData.x (drag_data (set_drag_xy cx cy (redraw r s2))) = Some cx"
    "DragData.y (drag_data (set_drag_xy cx cy (redraw r s2))) = Some cy"
    by (simp_all add: set_drag_xy_def)
  ultimately show ?thesis using res by blast
qed

subsection \<open>Resizing\<close>

text \<open>
  Claim C5, as the code has it. A drag of the resize handle (mode \<open>resizing\<close>, handle
  \<open>resize\<close>; for a text the three initial values that pointer-down on its handle records)
  raises no error and leaves the rectangle and hourglass at least 10 wide and high, the
  circle with a radius of at least 10, the text with a font size of at least 8. When the
  pointer is on the point the resize measures from, which is the centre of a rectangle,
  hourglass or circle and the anchor (top-left corner) of a text, the dimensions are
  exactly these minima.
\<close>

theorem on_canvas_drag_resize_floors:
  "selected_shape s = Some r \<Longrightarrow> mode s = ''resizing'' \<Longrightarrow>
   handle (drag_data s) = Some ''resize'' \<Longrightarrow> zoom_level s \<noteq> 0 \<Longrightarrow>
   (is_TextShape (heap s r) \<longrightarrow>
      init_x (drag_data s) \<noteq> None \<and> init_y (drag_data s) \<noteq> None \<and>
      init_font_size (drag_data s) \<noteq> None) \<Longrightarrow>
   \<exists>s'. on_canvas_drag cx cy s = Ok s' \<and> respects_floors (heap s' r) \<and>
        (reference_point (heap s r) = Some (cx, cy) \<longrightarrow> at_floors (heap s' r))"
  by (rule on_canvas_drag_resize_floors_aux)

lemma text_resizing_facts:
  "selected_shape text_resizing = Some 0 \<and> mode text_resizing = ''resizing'' \<and>
   handle (drag_data text_resizing) = Some ''resize'' \<and> zoom_level text_resizing = 1 \<and>
   is_TextShape (heap text_resizing 0) \<and>
   init_x (drag_data text_resizing) = Some 30 \<and> init_y (drag_data text_resizing) = Some 30 \<and>
   init_font_size (drag_data text_resizing) = Some 20 \<and>
   reference_point (heap text_resizing 0) = Some (10, 10)"
  unfolding text_resizing_def
  by (simp add: app_defs shape_defs Let_def)

text \<open>The text label "A" at (10,10), its resize handle dragged onto the anchor.\<close>

theorem on_canvas_drag_resize_floors_witness:
  "selected_shape text_resizing = Some 0 \<and> mode text_resizing = ''resizing'' \<and>
   handle (drag_data text_resizing) = Some ''resize'' \<and> zoom_level text_resizing \<noteq> 0 \<and>
   is_TextShape (heap text_resizing 0) \<and>
   init_x (drag_data text_resizing) \<noteq> None \<and> init_y (drag_data text_resizing) \<noteq> None \<and>
   init_font_size (drag_data text_resizing) \<noteq> None \<and>
   (\<exists>s'. on_canvas_drag 10 10 text_resizing = Ok s' \<and> respects_floors (heap s' 0) \<and>
         at_floors (heap s' 0))"
  using text_resizing_facts
    on_canvas_drag_resize_floors [of text_resizing 0 10 10]
  by simp

text \<open>
  The same label occupies the box from (10,10) to (30,30). Dragging the handle from
  (30,30) onto the centre (20,20) of the label halves the font size to 10: the minimum 8
  is reached at the anchor, not at the centre.
\<close>

theorem resize_text_center_counterexample:
  "text_bbox_of (heap text_resizing 0) = Some (10, 10, 30, 30) \<and>
   font_size_of (heap (state_of (on_canvas_drag 20 20 text_resizing)) 0) = Some 10"
proof -
  have "hypot 20 20 = sqrt 800" "hypot 10 10 = sqrt 200" by (simp_all add: hypot_def)
  moreover have "sqrt 800 = 2 * sqrt 200"
    using real_sqrt_mult [of 4 200] by simp
  moreover have "sqrt 200 \<noteq> 0" by simp
  ultimately show ?thesis
    unfolding text_resizing_def
    by (simp add: app_defs shape_defs Let_def text_bbox_of_def font_size_of_def py_int_def)
qed

subsection \<open>Rotating\<close>









lemma pairs_upto_8_Suc:
  "pairs_upto [a0, a1, a2, a3, a4, a5, a6, a7] (Suc (Suc (Suc (Suc (Suc (Suc (Suc (Suc 0))))))))
     = [(a0, a1), (a2, a3), (a4, a5), (a6, a7)]"
proof -
  have "Suc (Suc (Suc (Suc (Suc (Suc (Suc (Suc 0))))))) = 8" by simp
  then show ?thesis by (simp only: pairs_upto_def py_range2_8) simp
qed

lemmas rect_defs = get_corners_def radians_def pairs_upto_8_Suc







text \<open>
  A circle has no \<open>angle\<close>: while one is selected in mode \<open>rotating\<close>, every drag event
  raises, the first AttributeError and the later ones KeyError, and the circle is untouched.
\<close>

lemma circle_rotate_raises:
  assumes "selected_shape s = Some r" and "mode s = ''rotating''"
    and "heap s r = Circle c" and "CircleShape.angle c = None"
    and "init_shape_angle (drag_data s) = None"
  shows "\<exists>s'. (on_canvas_drag cx cy s = Raised (AttributeError ''CircleShape'' ''angle'') s' \<or>
               on_canvas_drag cx cy s = Raised (KeyError ''init_shape_angle'') s') \<and>
              heap s' = heap s \<and> init_shape_angle (drag_data s') = None"
  using assms
  by (cases "init_rotate_angle (drag_data s)")
     (auto simp: on_canvas_drag_def record_rotation_start_def rotate_to_pointer_def Let_def)

text \<open>
  Claim C3, on the code. A circle is created at (100,100) and selected, the pointer goes
  down on its rotate handle at (100,30). The first drag event raises AttributeError:
  \<open>CircleShape\<close> has no attribute \<open>angle\<close>. The handler has recorded the starting
  bearing by then, so the next drag event raises KeyError on \<open>init_shape_angle\<close>.
\<close>

theorem circle_rotate_drag_raises:
  "selected_shape circle_rotating = Some 0 \<and> mode circle_rotating = ''rotating'' \<and>
   is_CircleShape (heap circle_rotating 0) \<and>
   raised_error (on_canvas_drag 120 40 circle_rotating)
     = Some (AttributeError ''CircleShape'' ''angle'') \<and>
   raised_error (on_canvas_drag 130 50 (state_of (on_canvas_drag 120 40 circle_rotating)))
     = Some (KeyError ''init_shape_angle'')"
  unfolding circle_rotating_def
  by (simp add: app_defs shape_defs record_rotation_start_def rotate_to_pointer_def Let_def)

subsection \<open>Creating and moving\<close>

lemma rect_creating_facts:
  "mode rect_creating = ''create'' \<and> current_shape rect_creating = Some 0 \<and>
   shapes rect_creating = [0] \<and> selected_shape rect_creating = None \<and>
   reference_point (heap rect_creating 0) = Some (100, 100) \<and>
   DragData.x (drag_data rect_creating) = Some 100 \<and> DragData.y (drag_data rect_creating) = Some 100"
  unfolding rect_creating_def
  by (simp add: app_defs shape_defs rect_defs Let_def)

lemma circle_at_zoom_2_facts:
  "zoom_level circle_at_zoom_2 = 2 \<and> mode circle_at_zoom_2 = ''move'' \<and>
   selected_shape circle_at_zoom_2 = Some 0 \<and>
   reference_point (heap circle_at_zoom_2 0) = Some (100, 100) \<and>
   base_position (heap circle_at_zoom_2 0) = Some (100, 100) \<and>
   reference_point (heap (state_of (on_canvas_drag 120 120 circle_at_zoom_2)) 0) = Some (120, 120) \<and>
   base_position (heap (state_of (on_canvas_drag 120 120 circle_at_zoom_2)) 0) = Some (60, 60)"
  unfolding circle_at_zoom_2_def
  by (simp add: app_defs shape_defs zoom_defs Let_def py_int_def)

text \<open>
  Claim C2, on the code. With the rectangle tool, pointer-down at (100,100) on the empty
  canvas creates a rectangle and enters \<open>create\<close>; nothing is selected until pointer-up,
  so the drag to (120,130) returns at once and leaves the whole state as it was. And a
  circle created at (100,100) under zoom 2.0 starts with base centre (100,100): moving it
  by (20,20) sets the base centre to (60,60), a change of (-40,-40).
\<close>

theorem create_drag_not_translated:
  "mode rect_creating = ''create'' \<and> current_shape rect_creating = Some 0 \<and>
   reference_point (heap rect_creating 0) = Some (100, 100) \<and>
   DragData.x (drag_data rect_creating) = Some 100 \<and> DragData.y (drag_data rect_creating) = Some 100 \<and>
   on_canvas_drag 120 130 rect_creating = Ok rect_creating \<and>
   zoom_level circle_at_zoom_2 = 2 \<and> mode circle_at_zoom_2 = ''move'' \<and>
   base_position (heap circle_at_zoom_2 0) = Some (100, 100) \<and>
   reference_point (heap (state_of (on_canvas_drag 120 120 circle_at_zoom_2)) 0) = Some (120, 120) \<and>
   base_position (heap (state_of (on_canvas_drag 120 120 circle_at_zoom_2)) 0) = Some (60, 60)"
proof -
  have "on_canvas_drag 120 130 rect_creating = Ok rect_creating"
    using rect_creating_facts by (simp add: on_canvas_drag_def)
  then show ?thesis using rect_creating_facts circle_at_zoom_2_facts by simp
qed

section \<open>Pointer-down and delete\<close>

lemma click_shapes_None:
  "\<forall>q \<in> set rs. \<not> contains_point (heap s q) cx cy \<Longrightarrow> click_shapes rs cx cy s = None"
  by (induction rs) auto

lemma click_shapes_find:
  "click_shapes rs cx cy s =
     map_option (\<lambda>q. (select_shape q s)\<lparr>mode := ''move'', drag_data := drag_xy cx cy\<rparr>)
       (find (\<lambda>q. contains_point (heap s q) cx cy) rs)"
  by (induction rs) auto

lemma delete_selected_shape_frame:
  "mode (delete_selected_shape s) = mode s \<and> selected_shape (delete_selected_shape s) = None \<and>
   current_tool (delete_selected_shape s) = current_tool s \<and>
   shapes (delete_selected_shape s) =
     (case selected_shape s of None \<Rightarrow> shapes s | Some r \<Rightarrow> remove1 r (shapes s))"
  by (auto simp: delete_selected_shape_def Let_def remove1_idem split: option.splits prod.splits)

lemma click_nothing_selected_edit:
  assumes "selected_shape s = None" and "mode s = ''edit''"
    and "\<forall>q \<in> set (shapes s). \<not> contains_point (heap s q) cx cy"
  shows "on_canvas_click cx cy s = s\<lparr>selected_shape := None, mode := ''idle''\<rparr>"
proof -
  have "click_shapes (rev (shapes s)) cx cy s = None"
    using assms(3) by (intro click_shapes_None) simp
  then show ?thesis using assms(1,2) by (simp add: on_canvas_click_def deselect_all_def)
qed

text \<open>
  Claim C10. \<open>delete_selected_shape\<close> removes the selected shape from the shape sequence
  and clears the selection, and it leaves the mode as it was. So after a delete in mode
  \<open>edit\<close>, a pointer-down on a point that no remaining shape contains only deselects and
  sets the mode to \<open>idle\<close>: the shape sequence and the tool are unchanged, whatever the
  tool is, and no shape is created.
\<close>

theorem delete_keeps_mode:
  "mode (delete_selected_shape s) = mode s \<and> selected_shape (delete_selected_shape s) = None \<and>
   shapes (delete_selected_shape s) =
     (case selected_shape s of None \<Rightarrow> shapes s | Some r \<Rightarrow> remove1 r (shapes s)) \<and>
   (mode s = ''edit'' \<and>
    (\<forall>q \<in> set (shapes (delete_selected_shape s)). \<not> contains_point (heap (delete_selected_shape s) q) cx cy)
    \<longrightarrow> mode (on_canvas_click cx cy (delete_selected_shape s)) = ''idle'' \<and>
        selected_shape (on_canvas_click cx cy (delete_selected_shape s)) = None \<and>
        shapes (on_canvas_click cx cy (delete_selected_shape s)) = shapes (delete_selected_shape s) \<and>
        current_tool (on_canvas_click cx cy (delete_selected_shape s)) = current_tool s)"
proof -
  have fr: "mode (delete_selected_shape s) = mode s" "selected_shape (delete_selected_shape s) = None"
    "current_tool (delete_selected_shape s) = current_tool s"
    "shapes (delete_selected_shape s) =
       (case selected_shape s of None \<Rightarrow> shapes s | Some r \<Rightarrow> remove1 r (shapes s))"
    using delete_selected_shape_frame [of s] by simp_all
  show ?thesis
    using fr click_nothing_selected_edit [of "delete_selected_shape s" cx cy]
    by auto
qed

lemma rect_edit_facts:
  "mode rect_edit = ''edit'' \<and> selected_shape rect_edit = Some 0 \<and> shapes rect_edit = [0] \<and>
   current_tool rect_edit = ''rectangle''"
  unfolding rect_edit_def
  by (simp add: app_defs shape_defs rect_defs Let_def)

text \<open>The rectangle tool is active, the one rectangle is deleted in mode \<open>edit\<close>, then a click at (300,300).\<close>

theorem delete_keeps_mode_witness:
  "mode rect_edit = ''edit'' \<and> selected_shape rect_edit = Some 0 \<and> shapes rect_edit = [0] \<and>
   current_tool rect_edit = ''rectangle'' \<and>
   mode (delete_selected_shape rect_edit) = ''edit'' \<and>
   selected_shape (delete_selected_shape rect_edit) = None \<and>
   shapes (delete_selected_shape rect_edit) = [] \<and>
   mode (on_canvas_click 300 300 (delete_selected_shape rect_edit)) = ''idle'' \<and>
   selected_shape (on_canvas_click 300 300 (delete_selected_shape rect_edit)) = None \<and>
   shapes (on_canvas_click 300 300 (delete_selected_shape rect_edit)) = [] \<and>
   current_tool (on_canvas_click 300 300 (delete_selected_shape rect_edit)) = ''rectangle''"
  using rect_edit_facts delete_keeps_mode [of rect_edit 300 300]
  by simp

subsection \<open>The order of the transitions on pointer-down\<close>

lemma click_handles_find:
  "click_handles hs cx cy r s =
     (case find (handle_hit s cx cy) hs of
        None \<Rightarrow> None
      | Some h \<Rightarrow> Some (if fst h = ''rotate'' then s\<lparr>mode := ''rotating''\<rparr>
                        else start_resizing (fst h) cx cy r s))"
proof (induction hs)
  case Nil
  then show ?case by simp
next
  case (Cons h hs)
  obtain hname hid where h: "h = (hname, hid)" by (cases h)
  show ?case
    using Cons.IH
    by (auto simp: h handle_hit_def start_resizing_def Let_def split: shape.splits)
qed

lemma start_resizing_frame:
  "mode (start_resizing hname cx cy r s) = ''resizing'' \<and>
   handle (drag_data (start_resizing hname cx cy r s)) = Some hname \<and>
   selected_shape (start_resizing hname cx cy r s) = selected_shape s \<and>
   shapes (start_resizing hname cx cy r s) = shapes s \<and>
   heap (start_resizing hname cx cy r s) = heap s"
  by (simp add: start_resizing_def Let_def split: shape.splits)

lemma deselect_all_frame:
  "selected_shape (deselect_all s) = None \<and> shapes (deselect_all s) = shapes s \<and>
   mode (deselect_all s) = mode s \<and> current_tool (deselect_all s) = current_tool s \<and>
   next_ref (deselect_all s) = next_ref s"
  by (simp add: deselect_all_def split: option.splits prod.splits)

lemma select_shape_frame:
  "selected_shape (select_shape q s) = Some q \<and> shapes (select_shape q s) = shapes s \<and>
   mode (select_shape q s) = mode s \<and> current_tool (select_shape q s) = current_tool s"
  using deselect_all_frame [of s]
  by (simp add: select_shape_def Let_def split: option.splits prod.splits)

lemma new_shape_drawing_tool:
  "is_drawing_tool tool \<Longrightarrow> \<exists>shp. new_shape tool cx cy = Some shp"
  by (auto simp: is_drawing_tool_def new_shape_def)

lemma create_shape_frame:
  assumes "new_shape (current_tool s) cx cy = Some shp"
  shows "mode (create_shape cx cy s) = ''create'' \<and>
         shapes (create_shape cx cy s) = shapes s @ [next_ref s] \<and>
         current_shape (create_shape cx cy s) = Some (next_ref s) \<and>
         selected_shape (create_shape cx cy s) = selected_shape s \<and>
         drag_data (create_shape cx cy s) = drag_xy cx cy \<and>
         geometry (heap (create_shape cx cy s) (next_ref s)) = geometry shp"
proof -
  obtain shp1 c1 where d: "draw shp (canvas s) = (shp1, c1)" by fastforce
  have "geometry shp1 = geometry shp" using geometry_draw [of shp "canvas s"] d by simp
  then show ?thesis using assms d by (simp add: create_shape_def Let_def)
qed

lemma on_canvas_click_handles:
  assumes "find (handle_hit s cx cy) (selected_handles s) = Some h"
  shows "\<exists>r. selected_shape s = Some r \<and>
           on_canvas_click cx cy s =
             (if fst h = ''rotate'' then s\<lparr>mode := ''rotating''\<rparr> else start_resizing (fst h) cx cy r s)"
proof -
  obtain r where r: "selected_shape s = Some r"
    using assms by (cases "selected_shape s") (auto simp: selected_handles_def)
  then have "click_handles (shape_handles (heap s r)) cx cy r s =
               Some (if fst h = ''rotate'' then s\<lparr>mode := ''rotating''\<rparr> else start_resizing (fst h) cx cy r s)"
    using assms by (simp add: click_handles_find selected_handles_def)
  then show ?thesis using r by (simp add: on_canvas_click_def)
qed

lemma on_canvas_click_no_handle:
  assumes "find (handle_hit s cx cy) (selected_handles s) = None"
  shows "on_canvas_click cx cy s =
     (case find (\<lambda>q. contains_point (heap s q) cx cy) (rev (shapes s)) of
             Some q \<Rightarrow> (select_shape q s)\<lparr>mode := ''move'', drag_data := drag_xy cx cy\<rparr>
           | None \<Rightarrow>
               if mode s = ''edit'' then (deselect_all s)\<lparr>mode := ''idle''\<rparr>
               else if is_drawing_tool (current_tool s) \<and> mode s = ''idle''
               then create_shape cx cy s
               else if current_tool s = ''select'' then (deselect_all s)\<lparr>mode := ''idle''\<rparr>
               else s)"
proof -
  have "(case selected_shape s of None \<Rightarrow> None
         | Some r \<Rightarrow> click_handles (shape_handles (heap s r)) cx cy r s) = None"
    using assms by (cases "selected_shape s") (simp_all add: click_handles_find selected_handles_def)
  then show ?thesis
    by (simp add: on_canvas_click_def click_shapes_find is_drawing_tool_def split: option.splits)
qed

lemma draw_handles_flags:
  "shape_selected (fst (draw_handles shp c)) = shape_selected shp \<and>
   map fst (shape_handles (fst (draw_handles shp c))) = handle_names shp"
  by (cases shp)
     (auto simp: RectangleShape_draw_handles_def CircleShape_draw_handles_def
        HourglassShape_draw_handles_def LineShape_draw_handles_def TextShape_draw_handles_def
        delete_handles_def canvas_create_def dict_set_def Let_def
        split: option.splits prod.splits)

lemma deselect_flags:
  "\<not> shape_selected (fst (deselect shp c)) \<and> shape_handles (fst (deselect shp c)) = [] \<and>
   handle_names (fst (deselect shp c)) = handle_names shp"
  by (cases shp) (simp_all add: deselect_def delete_handles_def)

lemma select_flags:
  "shape_selected (fst (select shp c)) \<and>
   map fst (shape_handles (fst (select shp c))) = handle_names shp"
proof -
  have "shape_selected (set_selected True shp)"
    "handle_names (set_selected True shp) = handle_names shp"
    by (cases shp; simp)+
  then show ?thesis
    using draw_handles_flags [of "set_selected True shp" c] by (simp add: select_def)
qed

lemma deselect_all_heap:
  "(\<forall>p. selected_shape s = Some p \<longrightarrow>
        \<not> shape_selected (heap (deselect_all s) p) \<and> shape_handles (heap (deselect_all s) p) = []) \<and>
   (\<forall>q. selected_shape s \<noteq> Some q \<longrightarrow> heap (deselect_all s) q = heap s q) \<and>
   (\<forall>q. handle_names (heap (deselect_all s) q) = handle_names (heap s q))"
proof (cases "selected_shape s")
  case None
  then show ?thesis by (simp add: deselect_all_def)
next
  case (Some p)
  obtain shp c where d: "deselect (heap s p) (canvas s) = (shp, c)" by fastforce
  have "\<not> shape_selected shp \<and> shape_handles shp = [] \<and> handle_names shp = handle_names (heap s p)"
    using deselect_flags [of "heap s p" "canvas s"] d by simp
  then show ?thesis using Some d by (simp add: deselect_all_def)
qed

lemma select_shape_heap:
  "shape_selected (heap (select_shape q s) q) \<and>
   map fst (shape_handles (heap (select_shape q s) q)) = handle_names (heap s q) \<and>
   (\<forall>p. p \<noteq> q \<longrightarrow> heap (select_shape q s) p = heap (deselect_all s) p)"
proof -
  define s1 where "s1 = deselect_all s"
  obtain shp c where d: "select (heap s1 q) (canvas s1) = (shp, c)" by fastforce
  have f: "shape_selected shp \<and> map fst (shape_handles shp) = handle_names (heap s1 q)"
    using select_flags [of "heap s1 q" "canvas s1"] d by simp
  have n: "handle_names (heap s1 q) = handle_names (heap s q)"
    using deselect_all_heap [of s] by (simp add: s1_def)
  have h: "heap (select_shape q s) = (heap s1)(q := shp)"
    using d by (simp add: select_shape_def Let_def s1_def)
  show ?thesis using f n h by (simp add: s1_def)
qed

lemma on_canvas_click_priority_aux:
  "(\<forall>h. find (handle_hit s cx cy) (selected_handles s) = Some h \<and> fst h \<noteq> ''rotate'' \<longrightarrow>
        mode (on_canvas_click cx cy s) = ''resizing'' \<and>
        handle (drag_data (on_canvas_click cx cy s)) = Some (fst h) \<and>
        selected_shape (on_canvas_click cx cy s) = selected_shape s \<and>
        shapes (on_canvas_click cx cy s) = shapes s \<and>
        heap (on_canvas_click cx cy s) = heap s) \<and>
   (\<forall>h. find (handle_hit s cx cy) (selected_handles s) = Some h \<and> fst h = ''rotate'' \<longrightarrow>
        mode (on_canvas_click cx cy s) = ''rotating'' \<and>
        drag_data (on_canvas_click cx cy s) = drag_data s \<and>
        selected_shape (on_canvas_click cx cy s) = selected_shape s \<and>
        shapes (on_canvas_click cx cy s) = shapes s \<and>
        heap (on_canvas_click cx cy s) = heap s) \<and>
   (\<forall>q. find (handle_hit s cx cy) (selected_handles s) = None \<and>
        find (\<lambda>q. contains_point (heap s q) cx cy) (rev (shapes s)) = Some q \<longrightarrow>
        selected_shape (on_canvas_click cx cy s) = Some q \<and>
        mode (on_canvas_click cx cy s) = ''move'' \<and>
        drag_data (on_canvas_click cx cy s) = drag_xy cx cy \<and>
        shapes (on_canvas_click cx cy s) = shapes s \<and>
        shape_selected (heap (on_canvas_click cx cy s) q) \<and>
        map fst (shape_handles (heap (on_canvas_click cx cy s) q)) = handle_names (heap s q) \<and>
        (\<forall>p. selected_shape s = Some p \<and> p \<noteq> q \<longrightarrow>
             \<not> shape_selected (heap (on_canvas_click cx cy s) p) \<and>
             shape_handles (heap (on_canvas_click cx cy s) p) = [])) \<and>
   (find (handle_hit s cx cy) (selected_handles s) = None \<and>
    find (\<lambda>q. contains_point (heap s q) cx cy) (rev (shapes s)) = None \<longrightarrow>
      (mode s = ''edit'' \<longrightarrow>
         selected_shape (on_canvas_click cx cy s) = None \<and>
         mode (on_canvas_click cx cy s) = ''idle'' \<and>
         shapes (on_canvas_click cx cy s) = shapes s \<and>
         (\<forall>p. selected_shape s = Some p \<longrightarrow>
              \<not> shape_selected (heap (on_canvas_click cx cy s) p) \<and>
              shape_handles (heap (on_canvas_click cx cy s) p) = [])) \<and>
      (mode s = ''idle'' \<and> is_drawing_tool (current_tool s) \<longrightarrow>
         mode (on_canvas_click cx cy s) = ''create'' \<and>
         shapes (on_canvas_click cx cy s) = shapes s @ [next_ref s] \<and>
         current_shape (on_canvas_click cx cy s) = Some (next_ref s) \<and>
         selected_shape (on_canvas_click cx cy s) = selected_shape s \<and>
         drag_data (on_canvas_click cx cy s) = drag_xy cx cy \<and>
         Some (geometry (heap (on_canvas_click cx cy s) (next_ref s)))
           = map_option geometry (new_shape (current_tool s) cx cy)) \<and>
      (mode s \<noteq> ''edit'' \<and> \<not> (mode s = ''idle'' \<and> is_drawing_tool (current_tool s)) \<and>
       current_tool s = ''select'' \<longrightarrow>
         selected_shape (on_canvas_click cx cy s) = None \<and>
         mode (on_canvas_click cx cy s) = ''idle'' \<and>
         shapes (on_canvas_click cx cy s) = shapes s \<and>
         (\<forall>p. selected_shape s = Some p \<longrightarrow>
              \<not> shape_selected (heap (on_canvas_click cx cy s) p) \<and>
              shape_handles (heap (on_canvas_click cx cy s) p) = [])) \<and>
      (mode s \<noteq> ''edit'' \<and> \<not> (mode s = ''idle'' \<and> is_drawing_tool (current_tool s)) \<and>
       current_tool s \<noteq> ''select'' \<longrightarrow>
         on_canvas_click cx cy s = s))"
proof (intro conjI allI impI)
  fix h
  assume a: "find (handle_hit s cx cy) (selected_handles s) = Some h \<and> fst h \<noteq> ''rotate''"
  then obtain r where "on_canvas_click cx cy s = start_resizing (fst h) cx cy r s"
    using on_canvas_click_handles [of s cx cy h] by auto
  then show "mode (on_canvas_click cx cy s) = ''resizing''"
    "handle (drag_data (on_canvas_click cx cy s)) = Some (fst h)"
    "selected_shape (on_canvas_click cx cy s) = selected_shape s"
    "shapes (on_canvas_click cx cy s) = shapes s"
    "heap (on_canvas_click cx cy s) = heap s"
    using start_resizing_frame [of "fst h" cx cy r s] by simp_all
next
  fix h
  assume a: "find (handle_hit s cx cy) (selected_handles s) = Some h \<and> fst h = ''rotate''"
  then have "on_canvas_click cx cy s = s\<lparr>mode := ''rotating''\<rparr>"
    using on_canvas_click_handles [of s cx cy h] by auto
  then show "mode (on_canvas_click cx cy s) = ''rotating''"
    "drag_data (on_canvas_click cx cy s) = drag_data s"
    "selected_shape (on_canvas_click cx cy s) = selected_shape s"
    "shapes (on_canvas_click cx cy s) = shapes s"
    "heap (on_canvas_click cx cy s) = heap s"
    by simp_all
next
  fix q
  assume a: "find (handle_hit s cx cy) (selected_handles s) = None \<and>
        find (\<lambda>q. contains_point (heap s q) cx cy) (rev (shapes s)) = Some q"
  then have e: "on_canvas_click cx cy s = (select_shape q s)\<lparr>mode := ''move'', drag_data := drag_xy cx cy\<rparr>"
    using on_canvas_click_no_handle [of s cx cy] by simp
  then show "selected_shape (on_canvas_click cx cy s) = Some q"
    "mode (on_canvas_click cx cy s) = ''move''"
    "drag_data (on_canvas_click cx cy s) = drag_xy cx cy"
    "shapes (on_canvas_click cx cy s) = shapes s"
    using select_shape_frame [of q s] by simp_all
  show "shape_selected (heap (on_canvas_click cx cy s) q)"
    "map fst (shape_handles (heap (on_canvas_click cx cy s) q)) = handle_names (heap s q)"
    using e select_shape_heap [of q s] by simp_all
  fix p
  assume p: "selected_shape s = Some p \<and> p \<noteq> q"
  then have "heap (on_canvas_click cx cy s) p = heap (deselect_all s) p"
    using e select_shape_heap [of q s] by simp
  then show "\<not> shape_selected (heap (on_canvas_click cx cy s) p)"
    "shape_handles (heap (on_canvas_click cx cy s) p) = []"
    using p deselect_all_heap [of s] by simp_all
next
  assume a: "find (handle_hit s cx cy) (selected_handles s) = None \<and>
    find (\<lambda>q. contains_point (heap s q) cx cy) (rev (shapes s)) = None"
  assume m: "mode s = ''edit''"
  have e: "on_canvas_click cx cy s = (deselect_all s)\<lparr>mode := ''idle''\<rparr>"
    using a m on_canvas_click_no_handle [of s cx cy] by simp
  then show "selected_shape (on_canvas_click cx cy s) = None"
    "mode (on_canvas_click cx cy s) = ''idle''"
    "shapes (on_canvas_click cx cy s) = shapes s"
    using deselect_all_frame [of s] by simp_all
  fix p
  assume "selected_shape s = Some p"
  then show "\<not> shape_selected (heap (on_canvas_click cx cy s) p)"
    "shape_handles (heap (on_canvas_click cx cy s) p) = []"
    using e deselect_all_heap [of s] by simp_all
next
  assume a: "find (handle_hit s cx cy) (selected_handles s) = None \<and>
    find (\<lambda>q. contains_point (heap s q) cx cy) (rev (shapes s)) = None"
  assume m: "mode s = ''idle'' \<and> is_drawing_tool (current_tool s)"
  obtain shp where shp: "new_shape (current_tool s) cx cy = Some shp"
    using m new_shape_drawing_tool by blast
  have "on_canvas_click cx cy s = create_shape cx cy s"
    using a m on_canvas_click_no_handle [of s cx cy] by simp
  then show "mode (on_canvas_click cx cy s) = ''create''"
    "shapes (on_canvas_click cx cy s) = shapes s @ [next_ref s]"
    "current_shape (on_canvas_click cx cy s) = Some (next_ref s)"
    "selected_shape (on_canvas_click cx cy s) = selected_shape s"
    "drag_data (on_canvas_click cx cy s) = drag_xy cx cy"
    "Some (geometry (heap (on_canvas_click cx cy s) (next_ref s)))
           = map_option geometry (new_shape (current_tool s) cx cy)"
    using create_shape_frame [OF shp] shp by simp_all
next
  assume a: "find (handle_hit s cx cy) (selected_handles s) = None \<and>
    find (\<lambda>q. contains_point (heap s q) cx cy) (rev (shapes s)) = None"
  assume m: "mode s \<noteq> ''edit'' \<and> \<not> (mode s = ''idle'' \<and> is_drawing_tool (current_tool s)) \<and>
       current_tool s = ''select''"
  have e: "on_canvas_click cx cy s = (deselect_all s)\<lparr>mode := ''idle''\<rparr>"
    using a m on_canvas_click_no_handle [of s cx cy] by auto
  then show "selected_shape (on_canvas_click cx cy s) = None"
    "mode (on_canvas_click cx cy s) = ''idle''"
    "shapes (on_canvas_click cx cy s) = shapes s"
    using deselect_all_frame [of s] by simp_all
  fix p
  assume "selected_shape s = Some p"
  then show "\<not> shape_selected (heap (on_canvas_click cx cy s) p)"
    "shape_handles (heap (on_canvas_click cx cy s) p) = []"
    using e deselect_all_heap [of s] by simp_all
next
  assume a: "find (handle_hit s cx cy) (selected_handles s) = None \<and>
    find (\<lambda>q. contains_point (heap s q) cx cy) (rev (shapes s)) = None"
  assume m: "mode s \<noteq> ''edit'' \<and> \<not> (mode s = ''idle'' \<and> is_drawing_tool (current_tool s)) \<and>
       current_tool s \<noteq> ''select''"
  show "on_canvas_click cx cy s = s"
    using a m on_canvas_click_no_handle [of s cx cy] by auto
qed

text \<open>
  Claim C4. On pointer-down the transitions are tried in this order, the first match
  winning. (1) The first handle of the selected shape, in the order the handles were made,
  whose region contains the point and whose name is \<open>resize\<close>, \<open>end1\<close>, \<open>end2\<close> or
  \<open>rotate\<close>. For \<open>resize\<close>, \<open>end1\<close> and \<open>end2\<close> the mode becomes \<open>resizing\<close> and the name
  of the handle is recorded in \<open>drag_data\<close>. For \<open>rotate\<close> the mode becomes \<open>rotating\<close>
  and \<open>drag_data\<close> is left as it was: no handle is recorded. In both cases the selection,
  the shape sequence and the shapes stay. (2) Else the first shape, scanning the shape
  sequence from its end, that contains the point: it is selected (its flag is set and its
  handles are drawn), a shape that was selected before is deselected (its flag is cleared
  and its handles are removed), the mode becomes \<open>move\<close>, the point is the drag anchor.
  (3) Else in mode \<open>edit\<close>: the selected shape is deselected, nothing is selected, the mode
  becomes \<open>idle\<close>. (4) Else with a drawing tool in mode \<open>idle\<close>: a shape of the tool's kind
  and default size is appended to the shape sequence at the point and the mode becomes
  \<open>create\<close>. (5) Else with the tool \<open>select\<close>: the selected shape is deselected, nothing is
  selected, the mode becomes \<open>idle\<close>. Otherwise the state is unchanged.
\<close>

theorem on_canvas_click_priority:
  "(\<forall>h. find (handle_hit s cx cy) (selected_handles s) = Some h \<and> fst h \<noteq> ''rotate'' \<longrightarrow>
        mode (on_canvas_click cx cy s) = ''resizing'' \<and>
        handle (drag_data (on_canvas_click cx cy s)) = Some (fst h) \<and>
        selected_shape (on_canvas_click cx cy s) = selected_shape s \<and>
        shapes (on_canvas_click cx cy s) = shapes s \<and>
        heap (on_canvas_click cx cy s) = heap s) \<and>
   (\<forall>h. find (handle_hit s cx cy) (selected_handles s) = Some h \<and> fst h = ''rotate'' \<longrightarrow>
        mode (on_canvas_click cx cy s) = ''rotating'' \<and>
        drag_data (on_canvas_click cx cy s) = drag_data s \<and>
        selected_shape (on_canvas_click cx cy s) = selected_shape s \<and>
        shapes (on_canvas_click cx cy s) = shapes s \<and>
        heap (on_canvas_click cx cy s) = heap s) \<and>
   (\<forall>q. find (handle_hit s cx cy) (selected_handles s) = None \<and>
        find (\<lambda>q. contains_point (heap s q) cx cy) (rev (shapes s)) = Some q \<longrightarrow>
        selected_shape (on_canvas_click cx cy s) = Some q \<and>
        mode (on_canvas_click cx cy s) = ''move'' \<and>
        drag_data (on_canvas_click cx cy s) = drag_xy cx cy \<and>
        shapes (on_canvas_click cx cy s) = shapes s \<and>
        shape_selected (heap (on_canvas_click cx cy s) q) \<and>
        map fst (shape_handles (heap (on_canvas_click cx cy s) q)) = handle_names (heap s q) \<and>
        (\<forall>p. selected_shape s = Some p \<and> p \<noteq> q \<longrightarrow>
             \<not> shape_selected (heap (on_canvas_click cx cy s) p) \<and>
             shape_handles (heap (on_canvas_click cx cy s) p) = [])) \<and>
   (find (handle_hit s cx cy) (selected_handles s) = None \<and>
    find (\<lambda>q. contains_point (heap s q) cx cy) (rev (shapes s)) = None \<longrightarrow>
      (mode s = ''edit'' \<longrightarrow>
         selected_shape (on_canvas_click cx cy s) = None \<and>
         mode (on_canvas_click cx cy s) = ''idle'' \<and>
         shapes (on_canvas_click cx cy s) = shapes s \<and>
         (\<forall>p. selected_shape s = Some p \<longrightarrow>
              \<not> shape_selected (heap (on_canvas_click cx cy s) p) \<and>
              shape_handles (heap (on_canvas_click cx cy s) p) = [])) \<and>
      (mode s = ''idle'' \<and> is_drawing_tool (current_tool s) \<longrightarrow>
         mode (on_canvas_click cx cy s) = ''create'' \<and>
         shapes (on_canvas_click cx cy s) = shapes s @ [next_ref s] \<and>
         current_shape (on_canvas_click cx cy s) = Some (next_ref s) \<and>
         selected_shape (on_canvas_click cx cy s) = selected_shape s \<and>
         drag_data (on_canvas_click cx cy s) = drag_xy cx cy \<and>
         Some (geometry (heap (on_canvas_click cx cy s) (next_ref s)))
           = map_option geometry (new_shape (current_tool s) cx cy)) \<and>
      (mode s \<noteq> ''edit'' \<and> \<not> (mode s = ''idle'' \<and> is_drawing_tool (current_tool s)) \<and>
       current_tool s = ''select'' \<longrightarrow>
         selected_shape (on_canvas_click cx cy s) = None \<and>
         mode (on_canvas_click cx cy s) = ''idle'' \<and>
         shapes (on_canvas_click cx cy s) = shapes s \<and>
         (\<forall>p. selected_shape s = Some p \<longrightarrow>
              \<not> shape_selected (heap (on_canvas_click cx cy s) p) \<and>
              shape_handles (heap (on_canvas_click cx cy s) p) = [])) \<and>
      (mode s \<noteq> ''edit'' \<and> \<not> (mode s = ''idle'' \<and> is_drawing_tool (current_tool s)) \<and>
       current_tool s \<noteq> ''select'' \<longrightarrow>
         on_canvas_click cx cy s = s))"
  by (rule on_canvas_click_priority_aux)

lemmas hit_defs = handle_hit_def selected_handles_def is_drawing_tool_def

lemma rect_edit_hits:
  "find (handle_hit rect_edit 150 130) (selected_handles rect_edit) = Some (''resize'', 2) \<and>
   find (handle_hit rect_edit 100 50) (selected_handles rect_edit) = Some (''rotate'', 3) \<and>
   find (handle_hit rect_edit 100 100) (selected_handles rect_edit) = None \<and>
   find (\<lambda>q. contains_point (heap rect_edit q) 100 100) (rev (shapes rect_edit)) = Some 0 \<and>
   find (handle_hit rect_edit 300 300) (selected_handles rect_edit) = None \<and>
   find (\<lambda>q. contains_point (heap rect_edit q) 300 300) (rev (shapes rect_edit)) = None"
  unfolding rect_edit_def
  by (simp add: app_defs shape_defs rect_defs hit_defs Let_def)

lemma rect_edit_selection:
  "shape_selected (heap rect_edit 0) \<and>
   map fst (shape_handles (heap rect_edit 0)) = [''resize'', ''rotate''] \<and>
   handle_names (heap rect_edit 0) = [''resize'', ''rotate''] \<and>
   drag_data rect_edit = drag_xy 100 100"
  unfolding rect_edit_def
  by (simp add: app_defs shape_defs rect_defs Let_def)

lemma rect_tool_idle_facts:
  "find (handle_hit rect_tool_idle 100 100) (selected_handles rect_tool_idle) = None \<and>
   find (\<lambda>q. contains_point (heap rect_tool_idle q) 100 100) (rev (shapes rect_tool_idle)) = None \<and>
   mode rect_tool_idle = ''idle'' \<and> is_drawing_tool (current_tool rect_tool_idle) \<and>
   shapes rect_tool_idle = [] \<and> next_ref rect_tool_idle = 0"
  unfolding rect_tool_idle_def
  by (simp add: app_defs shape_defs rect_defs hit_defs Let_def)

lemma two_rects_hits:
  "find (handle_hit two_rects 100 100) (selected_handles two_rects) = None \<and>
   find (\<lambda>q. contains_point (heap two_rects q) 100 100) (rev (shapes two_rects)) = Some 0 \<and>
   selected_shape two_rects = Some 1 \<and> shape_selected (heap two_rects 1) \<and>
   map fst (shape_handles (heap two_rects 1)) = [''resize'', ''rotate''] \<and>
   \<not> shape_selected (heap two_rects 0) \<and>
   handle_names (heap two_rects 0) = [''resize'', ''rotate'']"
  unfolding two_rects_def
  by (simp add: app_defs shape_defs rect_defs hit_defs Let_def)

lemma rect_moving_facts:
  "find (handle_hit rect_moving 300 300) (selected_handles rect_moving) = None \<and>
   find (\<lambda>q. contains_point (heap rect_moving q) 300 300) (rev (shapes rect_moving)) = None \<and>
   mode rect_moving = ''move'' \<and> current_tool rect_moving = ''select'' \<and>
   selected_shape rect_moving = Some 0 \<and> shape_selected (heap rect_moving 0)"
  unfolding rect_moving_def
  by (simp add: app_defs shape_defs rect_defs hit_defs Let_def)

lemma rect_creating_hits:
  "find (handle_hit rect_creating 300 300) (selected_handles rect_creating) = None \<and>
   find (\<lambda>q. contains_point (heap rect_creating q) 300 300) (rev (shapes rect_creating)) = None \<and>
   mode rect_creating = ''create'' \<and> current_tool rect_creating = ''rectangle''"
  unfolding rect_creating_def
  by (simp add: app_defs shape_defs rect_defs hit_defs Let_def)

text \<open>
  The selected rectangle at (100,100): a pointer-down on its resize handle, on its rotate
  handle, on its body, and beside it. Two rectangles with the second selected: a
  pointer-down on the first. The first click of the rectangle tool. The select tool in
  mode \<open>move\<close>: a pointer-down beside the rectangle. The rectangle tool in mode \<open>create\<close>:
  a pointer-down beside the rectangle changes nothing.
\<close>

theorem on_canvas_click_priority_witness:
  "find (handle_hit rect_edit 150 130) (selected_handles rect_edit) = Some (''resize'', 2) \<and>
   mode (on_canvas_click 150 130 rect_edit) = ''resizing'' \<and>
   handle (drag_data (on_canvas_click 150 130 rect_edit)) = Some ''resize'' \<and>
   find (handle_hit rect_edit 100 50) (selected_handles rect_edit) = Some (''rotate'', 3) \<and>
   mode (on_canvas_click 100 50 rect_edit) = ''rotating'' \<and>
   drag_data (on_canvas_click 100 50 rect_edit) = drag_xy 100 100 \<and>
   find (handle_hit rect_edit 100 100) (selected_handles rect_edit) = None \<and>
   find (\<lambda>q. contains_point (heap rect_edit q) 100 100) (rev (shapes rect_edit)) = Some 0 \<and>
   selected_shape (on_canvas_click 100 100 rect_edit) = Some 0 \<and>
   mode (on_canvas_click 100 100 rect_edit) = ''move'' \<and>
   shape_selected (heap (on_canvas_click 100 100 rect_edit) 0) \<and>
   map fst (shape_handles (heap (on_canvas_click 100 100 rect_edit) 0)) = [''resize'', ''rotate''] \<and>
   find (handle_hit rect_edit 300 300) (selected_handles rect_edit) = None \<and>
   find (\<lambda>q. contains_point (heap rect_edit q) 300 300) (rev (shapes rect_edit)) = None \<and>
   mode rect_edit = ''edit'' \<and> selected_shape rect_edit = Some 0 \<and>
   shape_selected (heap rect_edit 0) \<and>
   selected_shape (on_canvas_click 300 300 rect_edit) = None \<and>
   mode (on_canvas_click 300 300 rect_edit) = ''idle'' \<and>
   \<not> shape_selected (heap (on_canvas_click 300 300 rect_edit) 0) \<and>
   shape_handles (heap (on_canvas_click 300 300 rect_edit) 0) = [] \<and>
   find (handle_hit two_rects 100 100) (selected_handles two_rects) = None \<and>
   find (\<lambda>q. contains_point (heap two_rects q) 100 100) (rev (shapes two_rects)) = Some 0 \<and>
   selected_shape two_rects = Some 1 \<and> shape_selected (heap two_rects 1) \<and>
   \<not> shape_selected (heap two_rects 0) \<and>
   selected_shape (on_canvas_click 100 100 two_rects) = Some 0 \<and>
   shape_selected (heap (on_canvas_click 100 100 two_rects) 0) \<and>
   map fst (shape_handles (heap (on_canvas_click 100 100 two_rects) 0)) = [''resize'', ''rotate''] \<and>
   \<not> shape_selected (heap (on_canvas_click 100 100 two_rects) 1) \<and>
   shape_handles (heap (on_canvas_click 100 100 two_rects) 1) = [] \<and>
   find (handle_hit rect_tool_idle 100 100) (selected_handles rect_tool_idle) = None \<and>
   find (\<lambda>q. contains_point (heap rect_tool_idle q) 100 100) (rev (shapes rect_tool_idle)) = None \<and>
   mode rect_tool_idle = ''idle'' \<and> is_drawing_tool (current_tool rect_tool_idle) \<and>
   mode (on_canvas_click 100 100 rect_tool_idle) = ''create'' \<and>
   shapes (on_canvas_click 100 100 rect_tool_idle) = [0] \<and>
   find (handle_hit rect_moving 300 300) (selected_handles rect_moving) = None \<and>
   find (\<lambda>q. contains_point (heap rect_moving q) 300 300) (rev (shapes rect_moving)) = None \<and>
   mode rect_moving = ''move'' \<and> current_tool rect_moving = ''select'' \<and>
   selected_shape rect_moving = Some 0 \<and> shape_selected (heap rect_moving 0) \<and>
   selected_shape (on_canvas_click 300 300 rect_moving) = None \<and>
   mode (on_canvas_click 300 300 rect_moving) = ''idle'' \<and>
   \<not> shape_selected (heap (on_canvas_click 300 300 rect_moving) 0) \<and>
   shape_handles (heap (on_canvas_click 300 300 rect_moving) 0) = [] \<and>
   find (handle_hit rect_creating 300 300) (selected_handles rect_creating) = None \<and>
   find (\<lambda>q. contains_point (heap rect_creating q) 300 300) (rev (shapes rect_creating)) = None \<and>
   mode rect_creating = ''create'' \<and> current_tool rect_creating = ''rectangle'' \<and>
   on_canvas_click 300 300 rect_creating = rect_creating"
proof -
  have r1: "mode (on_canvas_click 150 130 rect_edit) = ''resizing'' \<and>
      handle (drag_data (on_canvas_click 150 130 rect_edit)) = Some ''resize''"
    using on_canvas_click_priority [of rect_edit 150 130] rect_edit_hits by simp
  have r2: "mode (on_canvas_click 100 50 rect_edit) = ''rotating'' \<and>
      drag_data (on_canvas_click 100 50 rect_edit) = drag_xy 100 100"
    using on_canvas_click_priority [of rect_edit 100 50] rect_edit_hits rect_edit_selection by simp
  have r3: "selected_shape (on_canvas_click 100 100 rect_edit) = Some 0 \<and>
      mode (on_canvas_click 100 100 rect_edit) = ''move'' \<and>
      shape_selected (heap (on_canvas_click 100 100 rect_edit) 0) \<and>
      map fst (shape_handles (heap (on_canvas_click 100 100 rect_edit) 0)) = [''resize'', ''rotate'']"
    using on_canvas_click_priority [of rect_edit 100 100] rect_edit_hits rect_edit_selection by simp
  have r4: "selected_shape (on_canvas_click 300 300 rect_edit) = None \<and>
      mode (on_canvas_click 300 300 rect_edit) = ''idle'' \<and>
      \<not> shape_selected (heap (on_canvas_click 300 300 rect_edit) 0) \<and>
      shape_handles (heap (on_canvas_click 300 300 rect_edit) 0) = []"
    using on_canvas_click_priority [of rect_edit 300 300] rect_edit_hits rect_edit_facts by simp
  have r5: "selected_shape (on_canvas_click 100 100 two_rects) = Some 0 \<and>
      shape_selected (heap (on_canvas_click 100 100 two_rects) 0) \<and>
      map fst (shape_handles (heap (on_canvas_click 100 100 two_rects) 0)) = [''resize'', ''rotate''] \<and>
      \<not> shape_selected (heap (on_canvas_click 100 100 two_rects) 1) \<and>
      shape_handles (heap (on_canvas_click 100 100 two_rects) 1) = []"
    using on_canvas_click_priority [of two_rects 100 100] two_rects_hits by simp
  have r6: "mode (on_canvas_click 100 100 rect_tool_idle) = ''create'' \<and>
      shapes (on_canvas_click 100 100 rect_tool_idle) = [0]"
    using on_canvas_click_priority [of rect_tool_idle 100 100] rect_tool_idle_facts by simp
  have r7: "selected_shape (on_canvas_click 300 300 rect_moving) = None \<and>
      mode (on_canvas_click 300 300 rect_moving) = ''idle'' \<and>
      \<not> shape_selected (heap (on_canvas_click 300 300 rect_moving) 0) \<and>
      shape_handles (heap (on_canvas_click 300 300 rect_moving) 0) = []"
    using on_canvas_click_priority [of rect_moving 300 300] rect_moving_facts
    by (simp add: is_drawing_tool_def)
  have r8: "on_canvas_click 300 300 rect_creating = rect_creating"
    using on_canvas_click_priority [of rect_creating 300 300] rect_creating_hits by simp
  show ?thesis
    using r1 r2 r3 r4 r5 r6 r7 r8 rect_edit_hits rect_edit_facts rect_edit_selection
      two_rects_hits rect_tool_idle_facts rect_moving_facts rect_creating_hits
    by blast
qed

text \<open>
  The handle \<open>rotate\<close> is not recorded. On the selected rectangle at (100,100), whose
  \<open>drag_data\<close> names no handle, a pointer-down on the rotate handle sets the mode
  \<open>rotating\<close> and \<open>drag_data\<close> still names no handle. After a pointer-down on the resize
  handle and a release, a pointer-down on the rotate handle sets the mode \<open>rotating\<close> and
  \<open>drag_data\<close> still names the handle \<open>resize\<close>.
\<close>

theorem on_canvas_click_rotate_counterexample:
  "find (handle_hit rect_edit 100 50) (selected_handles rect_edit) = Some (''rotate'', 3) \<and>
   mode (on_canvas_click 100 50 rect_edit) = ''rotating'' \<and>
   handle (drag_data (on_canvas_click 100 50 rect_edit)) = None \<and>
   find (handle_hit rect_resize_released 100 50) (selected_handles rect_resize_released)
     = Some (''rotate'', 3) \<and>
   mode (on_canvas_click 100 50 rect_resize_released) = ''rotating'' \<and>
   handle (drag_data (on_canvas_click 100 50 rect_resize_released)) = Some ''resize''"
proof -
  have a: "find (handle_hit rect_edit 100 50) (selected_handles rect_edit) = Some (''rotate'', 3) \<and>
     mode (on_canvas_click 100 50 rect_edit) = ''rotating'' \<and>
     handle (drag_data (on_canvas_click 100 50 rect_edit)) = None"
    unfolding rect_edit_def
    by (simp add: app_defs shape_defs rect_defs hit_defs Let_def)
  have b: "find (handle_hit rect_resize_released 100 50) (selected_handles rect_resize_released)
       = Some (''rotate'', 3) \<and>
     mode (on_canvas_click 100 50 rect_resize_released) = ''rotating'' \<and>
     handle (drag_data (on_canvas_click 100 50 rect_resize_released)) = Some ''resize''"
    unfolding rect_resize_released_def
    by (simp add: app_defs shape_defs rect_defs hit_defs Let_def)
  from a b show ?thesis by simp
qed

subsection \<open>The rotation record between gestures\<close>

text \<open>
  Pointer-up removes the two values a rotation records, and pointer-down does not bring
  them back: a gesture that starts on the rotate handle starts without them.
\<close>

lemma deselect_all_drag_data: "drag_data (deselect_all s) = drag_data s"
  by (simp add: deselect_all_def split: option.splits prod.splits)

lemma select_shape_drag_data: "drag_data (select_shape q s) = drag_data s"
  by (simp add: select_shape_def Let_def deselect_all_drag_data split: option.splits prod.splits)

lemma release_clears_rotation:
  "init_rotate_angle (drag_data (state_of (on_canvas_release typed s))) = None \<and>
   init_shape_angle (drag_data (state_of (on_canvas_release typed s))) = None"
  using redraw_frame
  by (auto simp: on_canvas_release_def Let_def select_shape_drag_data split: option.splits shape.splits)

lemma click_keeps_no_rotation:
  assumes "init_rotate_angle (drag_data s) = None"
  shows "init_rotate_angle (drag_data (on_canvas_click cx cy s)) = None"
proof (cases "find (handle_hit s cx cy) (selected_handles s)")
  case (Some h)
  then obtain r where "on_canvas_click cx cy s =
      (if fst h = ''rotate'' then s\<lparr>mode := ''rotating''\<rparr> else start_resizing (fst h) cx cy r s)"
    using on_canvas_click_handles [of s cx cy h] by blast
  then show ?thesis using assms by (simp add: start_resizing_def Let_def split: shape.splits)
next
  case None
  have "drag_data (create_shape cx cy s) = drag_xy cx cy \<or> create_shape cx cy s = s"
    by (simp add: create_shape_def Let_def split: option.splits prod.splits)
  then have "init_rotate_angle (drag_data (create_shape cx cy s)) = None"
    using assms by (auto simp: drag_xy_def)
  then show ?thesis
    using assms on_canvas_click_no_handle [OF None]
    by (simp add: drag_xy_def deselect_all_drag_data split: option.splits)
qed

text \<open>Pointer-down on the resize handle of a text records the three values its resize reads.\<close>

lemma start_resizing_text_records:
  "is_TextShape (heap s r) \<Longrightarrow>
   init_x (drag_data (start_resizing ''resize'' cx cy r s)) \<noteq> None \<and>
   init_y (drag_data (start_resizing ''resize'' cx cy r s)) \<noteq> None \<and>
   init_font_size (drag_data (start_resizing ''resize'' cx cy r s)) \<noteq> None"
  by (cases "heap s r") (simp_all add: start_resizing_def Let_def)

section \<open>Draw order\<close>

lemma draw_order_order_by:
  "draw_order s = order_by (\<lambda>q. shape_item (heap s q)) (shapes s) (canvas_ids (canvas s))"
  by (simp add: draw_order_def order_by_def canvas_ids_def comp_def)

lemma order_by_append: "order_by items shs (a @ b) = order_by items shs a @ order_by items shs b"
  by (simp add: order_by_def)

lemma order_by_filter:
  "order_by items shs (filter P js) =
     filter (\<lambda>q. case items q of Some j \<Rightarrow> P j | None \<Rightarrow> False) (order_by items shs js)"
proof (induction js)
  case Nil
  then show ?case by (simp add: order_by_def)
next
  case (Cons j js)
  have blk: "filter (\<lambda>q. case items q of Some j \<Rightarrow> P j | None \<Rightarrow> False) (filter (\<lambda>q. items q = Some j) shs)
              = (if P j then filter (\<lambda>q. items q = Some j) shs else [])"
    by (induction shs) auto
  show ?case using Cons.IH blk by (simp add: order_by_def)
qed

lemma order_by_items: "q \<in> set (order_by items shs js) \<Longrightarrow> q \<in> set shs \<and> (\<exists>j \<in> set js. items q = Some j)"
  by (auto simp: order_by_def)

lemma order_by_filter_same:
  assumes "\<forall>q \<in> set shs. \<forall>j. items q = Some j \<longrightarrow> P j"
  shows "order_by items shs (filter P js) = order_by items shs js"
proof -
  have "\<forall>q \<in> set (order_by items shs js). (case items q of Some j \<Rightarrow> P j | None \<Rightarrow> False)"
  proof (rule ballI)
    fix q
    assume "q \<in> set (order_by items shs js)"
    then obtain j where "q \<in> set shs" "items q = Some j"
      using order_by_items [of q items shs js] by blast
    then show "case items q of Some j \<Rightarrow> P j | None \<Rightarrow> False" using assms by simp
  qed
  then show ?thesis by (simp add: order_by_filter)
qed

lemma order_by_none:
  assumes "\<forall>q \<in> set shs. \<forall>j. items q = Some j \<longrightarrow> j \<notin> set js"
  shows "order_by items shs js = []"
  using assms by (induction js) (auto simp: order_by_def filter_empty_conv)

lemma ids_canvas_delete: "canvas_ids (canvas_delete (Some h) c) = filter (\<lambda>j. j \<noteq> h) (canvas_ids c)"
  by (simp add: canvas_ids_def canvas_delete_def filter_map comp_def)

lemma ids_fold_delete:
  "canvas_ids (fold (\<lambda>hid c. canvas_delete (Some hid) c) hs c) = filter (\<lambda>j. j \<notin> set hs) (canvas_ids c) \<and>
   next_id (fold (\<lambda>hid c. canvas_delete (Some hid) c) hs c) = next_id c"
proof (induction hs arbitrary: c)
  case Nil
  then show ?case by simp
next
  case (Cons h hs)
  have "filter (\<lambda>j. j \<notin> set hs) (filter (\<lambda>j. j \<noteq> h) (canvas_ids c)) = filter (\<lambda>j. j \<notin> set (h # hs)) (canvas_ids c)"
    by (induction "canvas_ids c") (auto simp: conj_commute)
  then show ?case using Cons.IH [of "canvas_delete (Some h) c"] canvas_delete_frame [of "Some h" c]
    by (simp add: ids_canvas_delete)
qed

lemma ids_tag_raise: "canvas_ids (tag_raise h c) = filter (\<lambda>j. j \<noteq> h) (canvas_ids c) @ filter (\<lambda>j. j = h) (canvas_ids c)"
  by (simp add: canvas_ids_def tag_raise_def filter_map comp_def)

lemma ids_delete_handles:
  "canvas_ids (snd (delete_handles sh c)) = filter (\<lambda>j. j \<notin> snd ` set (handles sh)) (canvas_ids c) \<and>
   next_id (snd (delete_handles sh c)) = next_id c \<and>
   fst (delete_handles sh c) = sh\<lparr>handles := []\<rparr>"
  using ids_fold_delete [of "map snd (handles sh)" c] by (simp add: delete_handles_def)

lemma delete_handles_obtain:
  obtains c1 where "delete_handles sh c = (sh\<lparr>handles := []\<rparr>, c1)"
    and "canvas_ids c1 = filter (\<lambda>j. j \<notin> snd ` set (handles sh)) (canvas_ids c)"
    and "next_id c1 = next_id c"
  using ids_delete_handles [of sh c] by (metis prod.collapse)

lemma draw_handles_ids:
  "\<exists>new. canvas_ids (snd (draw_handles shp c))
            = filter (\<lambda>j. j \<notin> snd ` set (shape_handles shp)) (canvas_ids c) @ new \<and>
          map snd (shape_handles (fst (draw_handles shp c))) = new \<and>
          (\<forall>j \<in> set new. next_id c \<le> j) \<and>
          shape_item (fst (draw_handles shp c)) = shape_item shp"
proof (cases shp)
  case (Rectangle r)
  obtain c1 where d: "delete_handles r c = (r\<lparr>handles := []\<rparr>, c1)"
    and i: "canvas_ids c1 = filter (\<lambda>j. j \<notin> snd ` set (handles r)) (canvas_ids c)" and n: "next_id c1 = next_id c"
    by (rule delete_handles_obtain)
  show ?thesis
    using i n
    by (simp add: Rectangle RectangleShape_draw_handles_def d Let_def canvas_create_def canvas_ids_def
        dict_set_def split: prod.splits)
next
  case (Circle k)
  obtain c1 where d: "delete_handles k c = (k\<lparr>handles := []\<rparr>, c1)"
    and i: "canvas_ids c1 = filter (\<lambda>j. j \<notin> snd ` set (handles k)) (canvas_ids c)" and n: "next_id c1 = next_id c"
    by (rule delete_handles_obtain)
  show ?thesis
    using i n
    by (simp add: Circle CircleShape_draw_handles_def d Let_def canvas_create_def canvas_ids_def
        dict_set_def split: prod.splits)
next
  case (Hourglass h)
  obtain c1 where d: "delete_handles h c = (h\<lparr>handles := []\<rparr>, c1)"
    and i: "canvas_ids c1 = filter (\<lambda>j. j \<notin> snd ` set (handles h)) (canvas_ids c)" and n: "next_id c1 = next_id c"
    by (rule delete_handles_obtain)
  show ?thesis
    using i n
    by (simp add: Hourglass HourglassShape_draw_handles_def d Let_def canvas_create_def canvas_ids_def
        dict_set_def split: prod.splits)
next
  case (Line l)
  obtain c1 where d: "delete_handles l c = (l\<lparr>handles := []\<rparr>, c1)"
    and i: "canvas_ids c1 = filter (\<lambda>j. j \<notin> snd ` set (handles l)) (canvas_ids c)" and n: "next_id c1 = next_id c"
    by (rule delete_handles_obtain)
  show ?thesis
    using i n
    by (simp add: Line LineShape_draw_handles_def d Let_def canvas_create_def canvas_ids_def
        dict_set_def split: prod.splits)
next
  case (Text t)
  obtain c1 where d: "delete_handles t c = (t\<lparr>handles := []\<rparr>, c1)"
    and i: "canvas_ids c1 = filter (\<lambda>j. j \<notin> snd ` set (handles t)) (canvas_ids c)" and n: "next_id c1 = next_id c"
    by (rule delete_handles_obtain)
  show ?thesis
    using i n
    by (simp add: Text TextShape_draw_handles_def d Let_def canvas_create_def canvas_ids_def
        dict_set_def split: prod.splits option.splits)
qed

lemma shape_delete_handles_ids:
  "canvas_ids (snd (shape_delete_handles shp c)) = filter (\<lambda>j. j \<notin> snd ` set (shape_handles shp)) (canvas_ids c) \<and>
   next_id (snd (shape_delete_handles shp c)) = next_id c \<and>
   shape_item (fst (shape_delete_handles shp c)) = shape_item shp"
  by (cases shp) (simp_all add: ids_delete_handles)

lemma set_selected_frame:
  "shape_item (set_selected b shp) = shape_item shp \<and>
   shape_handles (set_selected b shp) = shape_handles shp"
  by (cases shp) simp_all

lemma deselect_all_ids:
  "canvas_ids (canvas (deselect_all s)) = filter (\<lambda>j. j \<notin> snd ` set (selected_handles s)) (canvas_ids (canvas s)) \<and>
   next_id (canvas (deselect_all s)) = next_id (canvas s) \<and>
   shapes (deselect_all s) = shapes s \<and>
   (\<forall>q. shape_item (heap (deselect_all s) q) = shape_item (heap s q)) \<and>
   (\<forall>q. set (shape_handles (heap (deselect_all s) q)) \<subseteq> set (shape_handles (heap s q)))"
proof (cases "selected_shape s")
  case None
  then show ?thesis by (simp add: deselect_all_def selected_handles_def)
next
  case (Some p)
  obtain shp c where d: "deselect (heap s p) (canvas s) = (shp, c)" by fastforce
  have e: "canvas_ids c = filter (\<lambda>j. j \<notin> snd ` set (shape_handles (heap s p))) (canvas_ids (canvas s))"
    "next_id c = next_id (canvas s)" "shape_item shp = shape_item (heap s p)"
    using d shape_delete_handles_ids [of "set_selected False (heap s p)" "canvas s"]
      set_selected_frame [of False "heap s p"]
    by (simp_all add: deselect_def)
  have h: "shape_handles shp = []"
    using d by (cases "heap s p") (auto simp: deselect_def delete_handles_def)
  show ?thesis using Some d e h by (simp add: deselect_all_def selected_handles_def)
qed

lemma order_by_tag_raise_other:
  assumes "\<forall>q \<in> set shs. items q \<noteq> Some h"
  shows "order_by items shs (filter (\<lambda>j. j \<noteq> h) js @ filter (\<lambda>j. j = h) js) = order_by items shs js"
proof -
  have a: "order_by items shs (filter (\<lambda>j. j = h) js) = []"
    using assms by (intro order_by_none) auto
  have b: "order_by items shs (filter (\<lambda>j. j \<noteq> h) js) = order_by items shs js"
    using assms by (intro order_by_filter_same) auto
  show ?thesis by (simp add: order_by_append a b)
qed

lemma fold_tag_raise_order:
  assumes "\<forall>q \<in> set shs. \<forall>j. items q = Some j \<longrightarrow> j \<notin> set hs"
  shows "order_by items shs (canvas_ids (fold tag_raise hs c)) = order_by items shs (canvas_ids c)"
  using assms
proof (induction hs arbitrary: c)
  case Nil
  then show ?case by simp
next
  case (Cons h hs)
  have "\<forall>q \<in> set shs. items q \<noteq> Some h" using Cons.prems by auto
  then have "order_by items shs (canvas_ids (tag_raise h c)) = order_by items shs (canvas_ids c)"
    unfolding ids_tag_raise by (rule order_by_tag_raise_other)
  moreover have "order_by items shs (canvas_ids (fold tag_raise hs (tag_raise h c)))
                   = order_by items shs (canvas_ids (tag_raise h c))"
    using Cons.prems by (intro Cons.IH) simp
  ultimately show ?case by simp
qed

lemma order_by_tag_raise_item:
  "order_by items shs (filter (\<lambda>j. j \<noteq> i) js @ filter (\<lambda>j. j = i) js)
     = filter (\<lambda>q. items q \<noteq> Some i) (order_by items shs js) @
       filter (\<lambda>q. items q = Some i) (order_by items shs js)"
proof -
  have a: "filter (\<lambda>q. case items q of Some j \<Rightarrow> j \<noteq> i | None \<Rightarrow> False) (order_by items shs js)
             = filter (\<lambda>q. items q \<noteq> Some i) (order_by items shs js)"
    using order_by_items [of _ items shs js] by (intro filter_cong) (auto split: option.splits)
  have b: "filter (\<lambda>q. case items q of Some j \<Rightarrow> j = i | None \<Rightarrow> False) (order_by items shs js)
             = filter (\<lambda>q. items q = Some i) (order_by items shs js)"
    by (intro filter_cong) (auto split: option.splits)
  show ?thesis by (simp add: order_by_append order_by_filter a b)
qed

lemma select_shape_draw_order_aux:
  assumes it: "shape_item (heap s r) = Some i" and nz: "i \<noteq> 0" and ap: "items_apart s r"
  shows "shapes (select_shape r s) = shapes s \<and>
         (\<forall>q. shape_item (heap (select_shape r s) q) = shape_item (heap s q)) \<and>
         draw_order (select_shape r s)
           = filter (\<lambda>q. shape_item (heap s q) \<noteq> Some i) (draw_order s) @
             filter (\<lambda>q. shape_item (heap s q) = Some i) (draw_order s)"
proof -
  define items where "items = (\<lambda>q. shape_item (heap s q))"
  define shs where "shs = shapes s"
  have apart: "\<And>q j. q \<in> set shs \<Longrightarrow> items q = Some j \<Longrightarrow>
      j < next_id (canvas s) \<and> j \<notin> snd ` set (selected_handles s) \<and>
      j \<notin> snd ` set (shape_handles (heap s r))"
    using ap by (simp add: items_apart_def items_def shs_def)
  define s1 where "s1 = deselect_all s"
  have d1: "canvas_ids (canvas s1) = filter (\<lambda>j. j \<notin> snd ` set (selected_handles s)) (canvas_ids (canvas s))"
    "next_id (canvas s1) = next_id (canvas s)" "shapes s1 = shapes s"
    "\<And>q. shape_item (heap s1 q) = shape_item (heap s q)"
    "set (shape_handles (heap s1 r)) \<subseteq> set (shape_handles (heap s r))"
    using deselect_all_ids [of s] by (simp_all add: s1_def)
  have o1: "order_by items shs (canvas_ids (canvas s1)) = order_by items shs (canvas_ids (canvas s))"
    unfolding d1(1) using apart by (intro order_by_filter_same) blast
  obtain shp c where sel: "select (heap s1 r) (canvas s1) = (shp, c)" by fastforce
  obtain new where dh: "canvas_ids c = filter (\<lambda>j. j \<notin> snd ` set (shape_handles (heap s1 r))) (canvas_ids (canvas s1)) @ new"
    "map snd (shape_handles shp) = new" "\<forall>j \<in> set new. next_id (canvas s1) \<le> j"
    "shape_item shp = shape_item (heap s1 r)"
    using draw_handles_ids [of "set_selected True (heap s1 r)" "canvas s1"] sel
      set_selected_frame [of True "heap s1 r"]
    by (auto simp: select_def)
  have new_fresh: "\<And>q j. q \<in> set shs \<Longrightarrow> items q = Some j \<Longrightarrow> j \<notin> set new"
    using apart dh(3) d1(2) by fastforce
  have o2a: "order_by items shs (filter (\<lambda>j. j \<notin> snd ` set (shape_handles (heap s1 r))) (canvas_ids (canvas s1)))
               = order_by items shs (canvas_ids (canvas s1))"
    using apart d1(5) by (intro order_by_filter_same) blast
  have o2b: "order_by items shs new = []"
    using new_fresh by (intro order_by_none) blast
  have o2: "order_by items shs (canvas_ids c) = order_by items shs (canvas_ids (canvas s))"
    unfolding dh(1) by (simp add: order_by_append o2a o2b o1)
  have si: "shape_item shp = Some i" using dh(4) d1(4) it by simp
  define c' where "c' = fold tag_raise (map snd (shape_handles shp)) (tag_raise i c)"
  have o3: "order_by items shs (canvas_ids c')
              = filter (\<lambda>q. items q \<noteq> Some i) (order_by items shs (canvas_ids (canvas s))) @
                filter (\<lambda>q. items q = Some i) (order_by items shs (canvas_ids (canvas s)))"
  proof -
    have "order_by items shs (canvas_ids c') = order_by items shs (canvas_ids (tag_raise i c))"
      unfolding c'_def dh(2) using new_fresh by (intro fold_tag_raise_order) blast
    then show ?thesis by (simp add: ids_tag_raise order_by_tag_raise_item o2)
  qed
  have res: "select_shape r s = s1\<lparr>selected_shape := Some r, heap := (heap s1)(r := shp), canvas := c'\<rparr>"
    using sel si nz by (simp add: select_shape_def Let_def s1_def c'_def)
  have items': "\<And>q. shape_item (heap (select_shape r s) q) = items q"
    using res si it d1(4) by (simp add: items_def)
  have "draw_order (select_shape r s) = order_by items shs (canvas_ids c')"
    unfolding draw_order_order_by using res items' d1(3) by (simp add: shs_def)
  then show ?thesis
    using o3 res d1(3) items' by (simp add: draw_order_order_by items_def shs_def)
qed

text \<open>
  Claim C8, as the code has it. \<open>select_shape\<close> leaves the shape sequence, which the
  hit-testing scan follows, as it is, and raises the item of the selected shape to the top
  of the canvas: in the draw order the selected shape comes after all other shapes, which
  keep their order among themselves. Canvas identifiers are taken to be fresh, as a canvas
  hands them out.
\<close>

theorem select_shape_raises:
  "shape_item (heap s r) = Some i \<Longrightarrow> i \<noteq> 0 \<Longrightarrow> items_apart s r \<Longrightarrow>
   shapes (select_shape r s) = shapes s \<and>
   draw_order (select_shape r s)
     = filter (\<lambda>q. shape_item (heap s q) \<noteq> Some i) (draw_order s) @
       filter (\<lambda>q. shape_item (heap s q) = Some i) (draw_order s)"
  using select_shape_draw_order_aux [of s r i] by simp

lemma two_rects_facts:
  "shapes two_rects = [0, 1] \<and> draw_order two_rects = [0, 1] \<and> selected_shape two_rects = Some 1 \<and>
   shape_item (heap two_rects 0) = Some 1 \<and> shape_item (heap two_rects 1) = Some 4 \<and>
   items_apart two_rects 0"
  unfolding two_rects_def
  by (simp add: app_defs shape_defs rect_defs draw_order_def items_apart_def selected_handles_def Let_def)

text \<open>Two rectangles, the second selected; selecting the first puts it on top.\<close>

theorem select_shape_raises_witness:
  "shape_item (heap two_rects 0) = Some 1 \<and> (1::nat) \<noteq> 0 \<and> items_apart two_rects 0 \<and>
   shapes (select_shape 0 two_rects) = [0, 1] \<and> draw_order two_rects = [0, 1] \<and>
   draw_order (select_shape 0 two_rects) = [1, 0]"
proof -
  have f: "shape_item (heap two_rects 0) = Some 1" "items_apart two_rects 0"
    "shapes two_rects = [0, 1]" "draw_order two_rects = [0, 1]"
    "shape_item (heap two_rects 1) = Some 4"
    using two_rects_facts by simp_all
  have nz: "(1::nat) \<noteq> 0" by simp
  show ?thesis
    using select_shape_raises [OF f(1) nz f(2)] f by simp
qed

text \<open>
  Two rectangles are created, at (100,100) and then at (300,300). A pointer-down at
  (100,100) selects the first: the shape sequence is still first, second, and on the
  canvas the first rectangle is now drawn above the second.
\<close>

theorem draw_order_counterexample:
  "shapes (on_canvas_click 100 100 two_rects) = [0, 1] \<and>
   draw_order (on_canvas_click 100 100 two_rects) = [1, 0] \<and>
   selected_shape (on_canvas_click 100 100 two_rects) = Some 0"
  unfolding two_rects_def
  by (simp add: app_defs shape_defs rect_defs draw_order_def Let_def)

end
